theory Spec2Isabelle
  imports Complex_Main "HOL-Library.Sublist"
begin

section \<open>JavaScript strings\<close>

text \<open>
  A JavaScript string is modelled as a \<^typ>\<open>string\<close>, each \<^typ>\<open>char\<close> read as the code
  point of the same number (U+0000 to U+00FF). Strings with code points above U+00FF are
  outside the model. On this range \<open>String.prototype.toLowerCase\<close> adds 32 to the
  letters A to Z and to the Latin-1 capitals U+00C0 to U+00DE (U+00D7, the multiplication
  sign, apart) and leaves every other code point alone.
\<close>

definition toLowerCaseChar :: "char \<Rightarrow> char" where
  "toLowerCaseChar c =
     (let n = (of_char c :: nat) in
      if (65 \<le> n \<and> n \<le> 90) \<or> (192 \<le> n \<and> n \<le> 222 \<and> n \<noteq> 215)
      then char_of (n + 32) else c)"

definition toLowerCase :: "string \<Rightarrow> string" where
  "toLowerCase s = map toLowerCaseChar s"

text \<open>\<open>s.startsWith(p)\<close> and \<open>s.includes(sub)\<close>, by recursion on the strings.\<close>

fun startsWith :: "string \<Rightarrow> string \<Rightarrow> bool" where
  "startsWith s [] = True"
| "startsWith [] (p # ps) = False"
| "startsWith (c # cs) (p # ps) = (c = p \<and> startsWith cs ps)"

fun str_includes :: "string \<Rightarrow> string \<Rightarrow> bool" where
  "str_includes [] sub = startsWith [] sub"
| "str_includes (c # cs) sub = (startsWith (c # cs) sub \<or> str_includes cs sub)"

text \<open>
  \<open>s.trim()\<close> removes the white space at both ends. The white space and line terminator
  code points up to U+00FF are tab, line feed, vertical tab, form feed, carriage return,
  space and the no-break space U+00A0.
\<close>

definition isWhiteSpace :: "char \<Rightarrow> bool" where
  "isWhiteSpace c = ((of_char c :: nat) \<in> {9, 10, 11, 12, 13, 32, 160})"

definition trim :: "string \<Rightarrow> string" where
  "trim s = rev (dropWhile isWhiteSpace (rev (dropWhile isWhiteSpace s)))"

section \<open>The error classifier\<close>

text \<open>
  A thrown JavaScript value: an \<open>Error\<close> object with its \<open>message\<close>, or any value that
  is not an instance of \<open>Error\<close> (\<open>null\<close>, the initial \<open>lastError\<close>, among them).
\<close>

datatype thrown = JsError string | NonError

text \<open>
  \<open>handleApiError(error, context)\<close> of \<open>services/geminiService.ts\<close>. The context string
  only goes to \<open>console.error\<close>; the diagnostic output is not modelled. The test
  \<open>error instanceof Error && error.message\<close> fails for a value that is no \<open>Error\<close> and for
  an \<open>Error\<close> whose message is the empty string.
\<close>

definition handleApiError :: "thrown \<Rightarrow> thrown" where
  "handleApiError error =
     (case error of
        NonError \<Rightarrow> JsError ''The AI is currently unavailable. Please try again in a moment.''
      | JsError message \<Rightarrow>
          if message = [] then
            JsError ''The AI is currently unavailable. Please try again in a moment.''
          else
            (let msg = toLowerCase message in
             if str_includes msg ''api key not valid'' then
               JsError ''Invalid API key. Please check your Google AI API key configuration.''
             else if str_includes msg ''quota'' \<or> str_includes msg ''429'' then
               JsError ''API quota exceeded. Please try again later or check your billing status.''
             else if str_includes msg ''400'' then
               JsError ''Invalid request. Please check your input and try again.''
             else if str_includes msg ''500'' \<or> str_includes msg ''503'' then
               JsError ''AI service temporarily unavailable. Please try again later.''
             else if str_includes msg ''safety'' then
               JsError ''Request blocked by safety filters. Please modify your input.''
             else JsError (''Unexpected error: '' @ message)))"

text \<open>
  The policy table of the specification, in its own words: the categories, the text the
  rules look at, the first matching rule of the table, and the sentence of each
  category. It is compared with \<^const>\<open>handleApiError\<close> below.
\<close>

datatype category =
  InvalidCredential | QuotaExceeded | InvalidRequest | ServiceUnavailable
  | ContentBlocked | Unexpected | GenericUnavailable

fun errorText :: "thrown \<Rightarrow> string" where
  "errorText NonError = []"
| "errorText (JsError message) = message"

definition containsIgnoringCase :: "string \<Rightarrow> string \<Rightarrow> bool" where
  "containsIgnoringCase txt key = sublist (toLowerCase key) (toLowerCase txt)"

definition classify :: "thrown \<Rightarrow> category" where
  "classify error =
     (let txt = errorText error in
      if txt = [] then GenericUnavailable
      else if containsIgnoringCase txt ''api key not valid'' then InvalidCredential
      else if containsIgnoringCase txt ''quota'' \<or> containsIgnoringCase txt ''429''
        then QuotaExceeded
      else if containsIgnoringCase txt ''400'' then InvalidRequest
      else if containsIgnoringCase txt ''500'' \<or> containsIgnoringCase txt ''503''
        then ServiceUnavailable
      else if containsIgnoringCase txt ''safety'' then ContentBlocked
      else Unexpected)"

fun categorySentence :: "category \<Rightarrow> string" where
  "categorySentence InvalidCredential =
     ''Invalid API key. Please check your Google AI API key configuration.''"
| "categorySentence QuotaExceeded =
     ''API quota exceeded. Please try again later or check your billing status.''"
| "categorySentence InvalidRequest =
     ''Invalid request. Please check your input and try again.''"
| "categorySentence ServiceUnavailable =
     ''AI service temporarily unavailable. Please try again later.''"
| "categorySentence ContentBlocked =
     ''Request blocked by safety filters. Please modify your input.''"
| "categorySentence Unexpected = ''Unexpected error: ''"
| "categorySentence GenericUnavailable =
     ''The AI is currently unavailable. Please try again in a moment.''"

section \<open>Role category\<close>

datatype RoleCategory = Tech | Content

definition contentKeywords :: "string list" where
  "contentKeywords =
     [''writer'', ''content'', ''editor'', ''copywriter'', ''author'', ''writing'',
      ''marketing'', ''copywriting'']"

text \<open>\<open>getRoleCategory(jobRole)\<close>; \<open>Array.prototype.some\<close> is \<^const>\<open>list_ex\<close>.\<close>

definition getRoleCategory :: "string \<Rightarrow> RoleCategory" where
  "getRoleCategory jobRole =
     (let lowerJobRole = toLowerCase jobRole in
      if list_ex (\<lambda>kw. str_includes lowerJobRole kw) contentKeywords
      then Content else Tech)"

text \<open>
  For the statement of the keyword rule, independently of \<^const>\<open>toLowerCase\<close>: the
  alphabet as pairs of a capital and its small letter, and two characters that are equal
  up to the case of such a letter.
\<close>

definition asciiLetters :: "(char \<times> char) list" where
  "asciiLetters = zip ''ABCDEFGHIJKLMNOPQRSTUVWXYZ'' ''abcdefghijklmnopqrstuvwxyz''"

definition sameLetter :: "char \<Rightarrow> char \<Rightarrow> bool" where
  "sameLetter c d = (c = d \<or> (c, d) \<in> set asciiLetters \<or> (d, c) \<in> set asciiLetters)"

section \<open>JavaScript numbers\<close>

text \<open>
  A JavaScript number is a binary64 value; it is modelled by the real number it denotes.
  \<^term>\<open>binary64 x\<close> is the binary64 value nearest to the real \<open>x\<close>, ties going to the even
  significand: \<open>x\<close> is divided by the unit in the last place of its binade (53 significant
  bits, gradual underflow below \<open>2\<close> to the \<open>-1022\<close>), rounded to an integer and scaled
  back. Results of magnitude \<open>2\<close> to the \<open>1024\<close> and more, which round to \<open>Infinity\<close>, are
  outside the model. \<open>a * b\<close> and \<open>a + b\<close> on numbers are the exact result rounded.
\<close>

definition roundHalfEven :: "real \<Rightarrow> int" where
  "roundHalfEven y =
     (let f = \<lfloor>y\<rfloor>; r = y - of_int f in
      if r < 1 / 2 then f else if 1 / 2 < r then f + 1 else if even f then f else f + 1)"

definition pow2 :: "int \<Rightarrow> real" where
  "pow2 k = (if 0 \<le> k then 2 ^ nat k else 1 / 2 ^ nat (- k))"

definition ulpExponent :: "real \<Rightarrow> int" where
  "ulpExponent x = max \<lfloor>log 2 \<bar>x\<bar>\<rfloor> (- 1022) - 52"

definition binary64 :: "real \<Rightarrow> real" where
  "binary64 x =
     (if x = 0 then 0
      else (let u = pow2 (ulpExponent x) in u * of_int (roundHalfEven (x / u))))"

definition times64 :: "real \<Rightarrow> real \<Rightarrow> real" where
  "times64 a b = binary64 (a * b)"

definition plus64 :: "real \<Rightarrow> real \<Rightarrow> real" where
  "plus64 a b = binary64 (a + b)"

section \<open>The runtime and the generative service\<close>

text \<open>
  A value produced by \<open>JSON.parse\<close>. \<^term>\<open>JNum x\<close> carries the number the parser produced.
\<close>

datatype json =
  JNull | JBool bool | JNum real | JStr string | JArr "json list"
  | JObj "(string \<times> json) list"

text \<open>
  What one call of \<open>client.models.generateContent\<close> does: it rejects with a thrown value,
  or resolves to a response whose \<open>text\<close> is a string or \<open>undefined\<close>.
\<close>

datatype response = Rejects thrown | Responds "string option"

text \<open>
  Everything \<open>geminiService.ts\<close> reads from outside itself: the configured key
  (\<open>process.env.API_KEY || process.env.GEMINI_API_KEY\<close>), the answer of the service to its
  \<open>n\<close>-th request (the prompt and the sampling parameters sent with it do not enter any
  property below, so they are not modelled: an arbitrary sequence of answers covers every
  way the service may react to them), \<open>JSON.parse\<close> (\<open>Inl\<close> is the \<open>SyntaxError\<close>), and the
  \<open>n\<close>-th value \<open>Math.random()\<close> gives to a backoff delay (a number that is at least 0 and
  less than 1, which the theorems assume where they need it).
\<close>

record env =
  API_KEY :: "string option"
  generateContent :: "nat \<Rightarrow> response"
  JSON_parse :: "string \<Rightarrow> thrown + json"
  Math_random :: "nat \<Rightarrow> real"

text \<open>
  The observable effects, in the order they happen: a request sent to the service, a
  call of \<open>JSON.parse\<close> with its argument, the \<open>console.warn\<close> of a failed attempt (attempt
  number and failure), and a \<open>setTimeout\<close> wait with its delay in milliseconds.
\<close>

datatype event = NetworkCall | JsonParse string | Warn nat thrown | Timeout real

text \<open>
  The mutable state: whether the module-level client \<open>ai\<close> has been constructed, how many
  requests were sent, how many jitter values were drawn, and the effects so far.
\<close>

record world =
  ai :: bool
  requests :: nat
  draws :: nat
  events :: "event list"

definition getAiClient :: "env \<Rightarrow> world \<Rightarrow> (thrown + unit) \<times> world" where
  "getAiClient e w =
     (if ai w then (Inr (), w)
      else if API_KEY e = None \<or> API_KEY e = Some [] then
        (Inl (JsError ''API_KEY is not configured. Please ensure GEMINI_API_KEY is set in your .env file.''), w)
      else (Inr (), w\<lparr>ai := True\<rparr>))"

text \<open>
  The checks of \<open>generateAndParse\<close> on the response (from \<open>if (!response.text)\<close> to
  \<open>return JSON.parse(jsonText)\<close>), which the specification calls \<open>parseAndValidate\<close>.
\<close>

definition parseAndValidate :: "env \<Rightarrow> string option \<Rightarrow> world \<Rightarrow> (thrown + json) \<times> world" where
  "parseAndValidate e responseText w =
     (case responseText of
        None \<Rightarrow> (Inl (JsError ''Empty response from AI service''), w)
      | Some txt \<Rightarrow>
          if txt = [] then (Inl (JsError ''Empty response from AI service''), w)
          else
            (let jsonText = trim txt in
             if \<not> startsWith jsonText ''{'' \<and> \<not> startsWith jsonText ''['' then
               (Inl (JsError ''Invalid JSON response format''), w)
             else
               (JSON_parse e jsonText, w\<lparr>events := events w @ [JsonParse jsonText]\<rparr>)))"

text \<open>The body of the \<open>try\<close> block of \<open>generateAndParse\<close>: one attempt.\<close>

definition attemptBody :: "env \<Rightarrow> world \<Rightarrow> (thrown + json) \<times> world" where
  "attemptBody e w =
     (case getAiClient e w of
        (Inl err, w1) \<Rightarrow> (Inl err, w1)
      | (Inr client, w1) \<Rightarrow>
          (let w2 = w1\<lparr>requests := requests w1 + 1, events := events w1 @ [NetworkCall]\<rparr> in
           case generateContent e (requests w1) of
             Rejects err \<Rightarrow> (Inl err, w2)
           | Responds responseText \<Rightarrow> parseAndValidate e responseText w2))"

text \<open>
  The \<open>for\<close> loop of \<open>generateAndParse\<close> from attempt number \<open>attempt\<close> on, with the
  \<open>catch\<close> block, and the \<open>throw\<close> after the loop.
\<close>

function generateAndParse_loop ::
  "env \<Rightarrow> nat \<Rightarrow> nat \<Rightarrow> thrown \<Rightarrow> world \<Rightarrow> (thrown + json) \<times> world" where
  "generateAndParse_loop e maxRetries attempt lastError w =
     (if attempt \<le> maxRetries then
        (case attemptBody e w of
           (Inr parsed, w1) \<Rightarrow> (Inr parsed, w1)
         | (Inl err, w1) \<Rightarrow>
             (let w2 = w1\<lparr>events := events w1 @ [Warn attempt err]\<rparr> in
              if attempt = maxRetries then (Inl (handleApiError err), w2)
              else
                (let delay = plus64 (times64 1000 (real attempt))
                               (times64 (Math_random e (draws w2)) 1000);
                     w3 = w2\<lparr>draws := draws w2 + 1, events := events w2 @ [Timeout delay]\<rparr>
                 in generateAndParse_loop e maxRetries (attempt + 1) err w3)))
      else (Inl (handleApiError lastError), w))"
  by pat_completeness auto
termination
  by (relation "measure (\<lambda>(e, maxRetries, attempt, lastError, w). maxRetries + 1 - attempt)") auto

definition generateAndParse :: "env \<Rightarrow> nat \<Rightarrow> world \<Rightarrow> (thrown + json) \<times> world" where
  "generateAndParse e maxRetries w = generateAndParse_loop e maxRetries 1 NonError w"

text \<open>
  \<open>createChat(params)\<close>: the client, then \<open>client.chats.create(params)\<close>. The chat handle
  it returns is not modelled further.
\<close>

definition createChat :: "env \<Rightarrow> world \<Rightarrow> (thrown + unit) \<times> world" where
  "createChat e w =
     (case getAiClient e w of
        (Inl err, w1) \<Rightarrow> (Inl err, w1)
      | (Inr client, w1) \<Rightarrow> (Inr (), w1))"

section \<open>The orchestrators\<close>

text \<open>\<open>await new Promise(resolve => setTimeout(resolve, ms))\<close>.\<close>

definition setTimeout :: "real \<Rightarrow> world \<Rightarrow> world" where
  "setTimeout ms w = w\<lparr>events := events w @ [Timeout ms]\<rparr>"

text \<open>JavaScript truthiness of a parsed value.\<close>

fun truthy :: "json \<Rightarrow> bool" where
  "truthy JNull = False"
| "truthy (JBool b) = b"
| "truthy (JNum x) = (x \<noteq> 0)"
| "truthy (JStr s) = (s \<noteq> [])"
| "truthy (JArr xs) = True"
| "truthy (JObj members) = True"

text \<open>
  Reading the property \<open>key\<close> of a parsed value, for the two keys the orchestrators read
  (\<open>generalQuestions\<close> and \<open>technicalQuestions\<close>, which no prototype defines): \<open>None\<close> is
  \<open>undefined\<close>, and reading a property of \<open>null\<close> raises a \<open>TypeError\<close> (with the message
  of V8).
\<close>

fun getProperty :: "json \<Rightarrow> string \<Rightarrow> thrown + json option" where
  "getProperty JNull key =
     Inl (JsError (''Cannot read properties of null (reading '' @ [CHR 0x27] @ key @ [CHR 0x27] @ '')''))"
| "getProperty (JObj members) key = Inr (map_of members key)"
| "getProperty (JBool b) key = Inr None"
| "getProperty (JNum x) key = Inr None"
| "getProperty (JStr s) key = Inr None"
| "getProperty (JArr xs) key = Inr None"

text \<open>\<open>v || d\<close> for a property that may be \<open>undefined\<close>, and for a parsed value.\<close>

fun orDefault :: "json option \<Rightarrow> json \<Rightarrow> json" where
  "orDefault None d = d"
| "orDefault (Some v) d = (if truthy v then v else d)"

record FullInterviewPrep =
  roleCategory :: RoleCategory
  generalQuestions :: json
  technicalQuestions :: json
  codingChallenges :: json
  machineCoding :: json

record RandomizedPrepSet = FullInterviewPrep +
  systemDesignQuestions :: json

text \<open>
  \<open>generateFullInterviewPrep(jobRole, jobDescription, resume)\<close>. The prompts (built from
  the arguments, the role category and random markers) only reach the service, so the
  optional arguments do not appear. A failure anywhere in the \<open>try\<close> block, the property
  reads of the \<open>return\<close> included, goes through \<open>handleApiError\<close>.
\<close>

definition generateFullInterviewPrep ::
  "env \<Rightarrow> string \<Rightarrow> world \<Rightarrow> (thrown + FullInterviewPrep) \<times> world" where
  "generateFullInterviewPrep e jobRole w =
     (if trim jobRole = [] then (Inl (JsError ''Job role is required''), w)
      else
        (case generateAndParse e 2 w of
           (Inl err, w1) \<Rightarrow> (Inl (handleApiError err), w1)
         | (Inr questionsResult, w1) \<Rightarrow>
        (case generateAndParse e 2 (setTimeout 2000 w1) of
           (Inl err, w2) \<Rightarrow> (Inl (handleApiError err), w2)
         | (Inr codingChallengesResult, w2) \<Rightarrow>
        (case generateAndParse e 2 (setTimeout 2000 w2) of
           (Inl err, w3) \<Rightarrow> (Inl (handleApiError err), w3)
         | (Inr machineCodingResult, w3) \<Rightarrow>
        (case getProperty questionsResult ''generalQuestions'' of
           Inl err \<Rightarrow> (Inl (handleApiError err), w3)
         | Inr general \<Rightarrow>
        (case getProperty questionsResult ''technicalQuestions'' of
           Inl err \<Rightarrow> (Inl (handleApiError err), w3)
         | Inr technical \<Rightarrow>
             (Inr \<lparr>roleCategory = getRoleCategory jobRole,
                   generalQuestions = orDefault general (JArr []),
                   technicalQuestions = orDefault technical (JArr []),
                   codingChallenges = orDefault (Some codingChallengesResult) (JArr []),
                   machineCoding = orDefault (Some machineCodingResult) (JObj [])\<rparr>,
              w3)))))))"

text \<open>\<open>generateRandomizedPrepSet(jobRole, difficulty, jobDescription, resume)\<close>.\<close>

definition generateRandomizedPrepSet ::
  "env \<Rightarrow> string \<Rightarrow> world \<Rightarrow> (thrown + RandomizedPrepSet) \<times> world" where
  "generateRandomizedPrepSet e jobRole w =
     (if trim jobRole = [] then (Inl (JsError ''Job role is required''), w)
      else
        (case generateAndParse e 2 w of
           (Inl err, w1) \<Rightarrow> (Inl (handleApiError err), w1)
         | (Inr questionsResult, w1) \<Rightarrow>
        (case generateAndParse e 2 (setTimeout 1500 w1) of
           (Inl err, w2) \<Rightarrow> (Inl (handleApiError err), w2)
         | (Inr systemDesignResult, w2) \<Rightarrow>
        (case generateAndParse e 2 (setTimeout 1500 w2) of
           (Inl err, w3) \<Rightarrow> (Inl (handleApiError err), w3)
         | (Inr codingChallengesResult, w3) \<Rightarrow>
        (case generateAndParse e 2 (setTimeout 1500 w3) of
           (Inl err, w4) \<Rightarrow> (Inl (handleApiError err), w4)
         | (Inr machineCodingResult, w4) \<Rightarrow>
        (case getProperty questionsResult ''generalQuestions'' of
           Inl err \<Rightarrow> (Inl (handleApiError err), w4)
         | Inr general \<Rightarrow>
        (case getProperty questionsResult ''technicalQuestions'' of
           Inl err \<Rightarrow> (Inl (handleApiError err), w4)
         | Inr technical \<Rightarrow>
             (Inr \<lparr>roleCategory = getRoleCategory jobRole,
                   generalQuestions = orDefault general (JArr []),
                   technicalQuestions = orDefault technical (JArr []),
                   codingChallenges = orDefault (Some codingChallengesResult) (JArr []),
                   machineCoding = orDefault (Some machineCodingResult) (JObj []),
                   systemDesignQuestions = orDefault (Some systemDesignResult) (JArr [])\<rparr>,
              w4))))))))"

section \<open>Chat transcripts\<close>

text \<open>
  \<open>ChatMessage\<close> of \<open>types.ts\<close>. The optional fields are options (\<open>None\<close> is an absent
  field). The retry closure the two \<open>processAIResponse\<close> functions build is
  \<open>() => processAIResponse(message, true)\<close>, represented by the message it captured
  (\<open>Resend\<close>); the one the opening functions build is \<open>() => startInterview(chatInstance,
  true)\<close>, or the same with \<open>startChat\<close> (\<open>Restart\<close>).
\<close>

datatype Role = User | Model

datatype retryAction = Resend string | Restart

record ChatMessage =
  role :: Role
  msgText :: string
  isError :: "bool option"
  onRetry :: "retryAction option"














section \<open>Observations on a run\<close>

text \<open>
  The \<open>setTimeout\<close> delays and the \<open>console.warn\<close> calls among the effects, in order, and
  the delay expression of the \<open>catch\<close> block, \<open>(1000 * attempt) + Math.random() * 1000\<close>
  in binary64 arithmetic, for an attempt number and a value of \<open>Math.random()\<close>, and for
  the failed attempt \<open>k\<close> of a call of \<open>generateAndParse\<close> that started in the world \<open>w\<close>.
\<close>

fun delays :: "event list \<Rightarrow> real list" where
  "delays [] = []"
| "delays (Timeout d # evs) = d # delays evs"
| "delays (ev # evs) = delays evs"

fun warned :: "event list \<Rightarrow> (nat \<times> thrown) list" where
  "warned [] = []"
| "warned (Warn attempt err # evs) = (attempt, err) # warned evs"
| "warned (ev # evs) = warned evs"

definition delayAfter :: "nat \<Rightarrow> real \<Rightarrow> real" where
  "delayAfter attempt r = plus64 (times64 1000 (real attempt)) (times64 r 1000)"

definition backoff :: "env \<Rightarrow> world \<Rightarrow> nat \<Rightarrow> real" where
  "backoff e w k = delayAfter k (Math_random e (draws w + (k - 1)))"

section \<open>Example inputs\<close>

text \<open>
  A fresh page (no client yet, nothing sent), and five environments: no key configured;
  a service that rejects every request; the same with \<open>Math.random()\<close> giving the
  largest binary64 value below 1; a service that answers the first request and rejects
  the later ones; a service that answers every request with an empty object.
\<close>

definition world0 :: world where
  "world0 = \<lparr>ai = False, requests = 0, draws = 0, events = []\<rparr>"

definition envNoKey :: env where
  "envNoKey = \<lparr>API_KEY = None, generateContent = (\<lambda>n. Responds (Some ''{}'')),
     JSON_parse = (\<lambda>s. Inr (JObj [])), Math_random = (\<lambda>n. 1 / 2)\<rparr>"

definition envDown :: env where
  "envDown = \<lparr>API_KEY = Some ''key'',
     generateContent = (\<lambda>n. Rejects (JsError ''503 Service Unavailable'')),
     JSON_parse = (\<lambda>s. Inr (JObj [])), Math_random = (\<lambda>n. 1 / 2)\<rparr>"

definition envMaxJitter :: env where
  "envMaxJitter = \<lparr>API_KEY = Some ''key'',
     generateContent = (\<lambda>n. Rejects (JsError ''503 Service Unavailable'')),
     JSON_parse = (\<lambda>s. Inr (JObj [])), Math_random = (\<lambda>n. 1 - 1 / 2 ^ 53)\<rparr>"

definition envSecondFails :: env where
  "envSecondFails = \<lparr>API_KEY = Some ''key'',
     generateContent = (\<lambda>n. if n = 0 then Responds (Some ''{}'')
                             else Rejects (JsError ''503 Service Unavailable'')),
     JSON_parse = (\<lambda>s. Inr (JObj [(''generalQuestions'', JArr [JStr ''Tell me about yourself'']),
                                    (''technicalQuestions'', JArr [])])),
     Math_random = (\<lambda>n. 1 / 2)\<rparr>"

definition envEmptyObjects :: env where
  "envEmptyObjects = \<lparr>API_KEY = Some ''key'',
     generateContent = (\<lambda>n. Responds (Some ''{}'')),
     JSON_parse = (\<lambda>s. Inr (JObj [])),
     Math_random = (\<lambda>n. 1 / 2)\<rparr>"


section \<open>Facts about the string operations\<close>

lemma toLowerCaseChar_upper:
  "toLowerCaseChar CHR ''A'' = CHR ''a''" "toLowerCaseChar CHR ''B'' = CHR ''b''"
  "toLowerCaseChar CHR ''C'' = CHR ''c''" "toLowerCaseChar CHR ''D'' = CHR ''d''"
  "toLowerCaseChar CHR ''E'' = CHR ''e''" "toLowerCaseChar CHR ''F'' = CHR ''f''"
  "toLowerCaseChar CHR ''G'' = CHR ''g''" "toLowerCaseChar CHR ''H'' = CHR ''h''"
  "toLowerCaseChar CHR ''I'' = CHR ''i''" "toLowerCaseChar CHR ''J'' = CHR ''j''"
  "toLowerCaseChar CHR ''K'' = CHR ''k''" "toLowerCaseChar CHR ''L'' = CHR ''l''"
  "toLowerCaseChar CHR ''M'' = CHR ''m''" "toLowerCaseChar CHR ''N'' = CHR ''n''"
  "toLowerCaseChar CHR ''O'' = CHR ''o''" "toLowerCaseChar CHR ''P'' = CHR ''p''"
  "toLowerCaseChar CHR ''Q'' = CHR ''q''" "toLowerCaseChar CHR ''R'' = CHR ''r''"
  "toLowerCaseChar CHR ''S'' = CHR ''s''" "toLowerCaseChar CHR ''T'' = CHR ''t''"
  "toLowerCaseChar CHR ''U'' = CHR ''u''" "toLowerCaseChar CHR ''V'' = CHR ''v''"
  "toLowerCaseChar CHR ''W'' = CHR ''w''" "toLowerCaseChar CHR ''X'' = CHR ''x''"
  "toLowerCaseChar CHR ''Y'' = CHR ''y''" "toLowerCaseChar CHR ''Z'' = CHR ''z''"
  by code_simp+

lemma toLowerCaseChar_other:
  "\<not> (65 \<le> (of_char c :: nat) \<and> (of_char c :: nat) \<le> 90) \<Longrightarrow>
   \<not> (192 \<le> (of_char c :: nat) \<and> (of_char c :: nat) \<le> 222) \<Longrightarrow>
   toLowerCaseChar c = c"
  by (auto simp: toLowerCaseChar_def Let_def)

lemmas lower_eval = toLowerCase_def toLowerCaseChar_upper toLowerCaseChar_other

lemma startsWith_prefix: "startsWith s p \<longleftrightarrow> prefix p s"
  by (induction s p rule: startsWith.induct) auto

lemma str_includes_sublist: "str_includes s sub \<longleftrightarrow> sublist sub s"
proof (induction s)
  case Nil
  show ?case by (simp add: startsWith_prefix)
next
  case (Cons c cs)
  then show ?case by (simp add: startsWith_prefix sublist_Cons_right)
qed

lemma keys_lower:
  "toLowerCase ''api key not valid'' = ''api key not valid''"
  "toLowerCase ''quota'' = ''quota''"
  "toLowerCase ''429'' = ''429''"
  "toLowerCase ''400'' = ''400''"
  "toLowerCase ''500'' = ''500''"
  "toLowerCase ''503'' = ''503''"
  "toLowerCase ''safety'' = ''safety''"
  by (simp_all add: lower_eval)

lemma includes_key:
  "toLowerCase key = key \<Longrightarrow>
   str_includes (toLowerCase message) key = containsIgnoringCase message key"
  by (simp add: str_includes_sublist containsIgnoringCase_def)

lemma containsIgnoringCase_code:
  "containsIgnoringCase txt key = str_includes (toLowerCase txt) (toLowerCase key)"
  by (simp add: str_includes_sublist containsIgnoringCase_def)

section \<open>Role category: the keyword rule\<close>

lemma char_of_letters:
  "char_of (97::nat) = CHR ''a''" "char_of (98::nat) = CHR ''b''"
  "char_of (99::nat) = CHR ''c''" "char_of (100::nat) = CHR ''d''"
  "char_of (101::nat) = CHR ''e''" "char_of (102::nat) = CHR ''f''"
  "char_of (103::nat) = CHR ''g''" "char_of (104::nat) = CHR ''h''"
  "char_of (105::nat) = CHR ''i''" "char_of (106::nat) = CHR ''j''"
  "char_of (107::nat) = CHR ''k''" "char_of (108::nat) = CHR ''l''"
  "char_of (109::nat) = CHR ''m''" "char_of (110::nat) = CHR ''n''"
  "char_of (111::nat) = CHR ''o''" "char_of (112::nat) = CHR ''p''"
  "char_of (113::nat) = CHR ''q''" "char_of (114::nat) = CHR ''r''"
  "char_of (115::nat) = CHR ''s''" "char_of (116::nat) = CHR ''t''"
  "char_of (117::nat) = CHR ''u''" "char_of (118::nat) = CHR ''v''"
  "char_of (119::nat) = CHR ''w''" "char_of (120::nat) = CHR ''x''"
  "char_of (121::nat) = CHR ''y''" "char_of (122::nat) = CHR ''z''"
  by code_simp+

lemma asciiLetters_lower:
  "(c, k) \<in> set asciiLetters \<Longrightarrow> toLowerCaseChar c = k \<and> toLowerCaseChar k = k"
  by (auto simp: asciiLetters_def toLowerCaseChar_upper toLowerCaseChar_other)

lemma sameLetter_lower: "sameLetter c d \<Longrightarrow> toLowerCaseChar c = toLowerCaseChar d"
  unfolding sameLetter_def using asciiLetters_lower by metis

lemma small_letter_code:
  "k \<in> set ''abcdefghijklmnopqrstuvwxyz'' \<Longrightarrow>
   97 \<le> (of_char k :: nat) \<and> (of_char k :: nat) \<le> 122"
  by auto

lemma lower_char_arith:
  assumes l: "toLowerCaseChar c = k"
      and k: "97 \<le> (of_char k :: nat)" "(of_char k :: nat) \<le> 122"
  shows "c = k \<or> (65 \<le> (of_char c :: nat) \<and> (of_char c :: nat) \<le> 90
                    \<and> (of_char k :: nat) = of_char c + 32)"
proof -
  let ?n = "of_char c :: nat"
  show ?thesis
  proof (cases "(65 \<le> ?n \<and> ?n \<le> 90) \<or> (192 \<le> ?n \<and> ?n \<le> 222 \<and> ?n \<noteq> 215)")
    case False
    then have "toLowerCaseChar c = c" by (auto simp: toLowerCaseChar_def Let_def)
    with l show ?thesis by simp
  next
    case True
    then have "k = char_of (?n + 32)"
      using l by (auto simp: toLowerCaseChar_def Let_def)
    then have "(of_char k :: nat) = (?n + 32) mod 256" by simp
    moreover have "(?n + 32) mod 256 = ?n + 32" using True by auto
    ultimately have e: "(of_char k :: nat) = ?n + 32" by simp
    with k True show ?thesis by auto
  qed
qed

lemma capital_codes: "[65..<91] = map of_char ''ABCDEFGHIJKLMNOPQRSTUVWXYZ''"
  by (simp add: upt_rec_numeral)

lemma capital_char:
  assumes "65 \<le> (of_char c :: nat)" "(of_char c :: nat) \<le> 90"
  shows "c \<in> set ''ABCDEFGHIJKLMNOPQRSTUVWXYZ''"
proof -
  have "65 \<le> (of_char c :: nat) \<and> (of_char c :: nat) < 91" using assms by linarith
  then have "(of_char c :: nat) \<in> set [65..<91]"
    by (simp only: set_upt atLeastLessThan_iff)
  then have "(of_char c :: nat) \<in> of_char ` set ''ABCDEFGHIJKLMNOPQRSTUVWXYZ''"
    unfolding capital_codes by (simp only: set_map)
  then show ?thesis
    by (simp only: inj_image_mem_iff [OF inj_of_char])
qed

lemma capital_pair:
  assumes c: "65 \<le> (of_char c :: nat)" "(of_char c :: nat) \<le> 90"
      and k: "(of_char k :: nat) = of_char c + 32"
  shows "(c, k) \<in> set asciiLetters"
proof -
  have "k = char_of (of_char k :: nat)" by simp
  then have ke: "k = char_of ((of_char c :: nat) + 32)" using k by simp
  from capital_char [OF c]
  have cases: "c = CHR ''A'' \<or> c = CHR ''B'' \<or> c = CHR ''C'' \<or> c = CHR ''D'' \<or> c = CHR ''E'' \<or> c = CHR ''F'' \<or> c = CHR ''G'' \<or> c = CHR ''H'' \<or> c = CHR ''I'' \<or> c = CHR ''J'' \<or> c = CHR ''K'' \<or> c = CHR ''L'' \<or> c = CHR ''M'' \<or> c = CHR ''N'' \<or> c = CHR ''O'' \<or> c = CHR ''P'' \<or> c = CHR ''Q'' \<or> c = CHR ''R'' \<or> c = CHR ''S'' \<or> c = CHR ''T'' \<or> c = CHR ''U'' \<or> c = CHR ''V'' \<or> c = CHR ''W'' \<or> c = CHR ''X'' \<or> c = CHR ''Y'' \<or> c = CHR ''Z''"
    by simp
  show ?thesis
    unfolding ke using cases
    by (elim disjE) (simp_all add: asciiLetters_def char_of_letters)
qed

lemma lower_char_iff:
  assumes "k \<in> set ''abcdefghijklmnopqrstuvwxyz''"
  shows "toLowerCaseChar c = k \<longleftrightarrow> sameLetter c k"
proof
  assume "toLowerCaseChar c = k"
  then have "c = k \<or> (c, k) \<in> set asciiLetters"
    using lower_char_arith [of c k] small_letter_code [OF assms] capital_pair [of c k] by blast
  then show "sameLetter c k" by (auto simp: sameLetter_def)
next
  assume s: "sameLetter c k"
  have kk: "toLowerCaseChar k = k"
    using small_letter_code [OF assms] by (intro toLowerCaseChar_other) auto
  show "toLowerCaseChar c = k"
    using sameLetter_lower [OF s] kk by simp
qed

lemma lower_string_iff:
  assumes "set kw \<subseteq> set ''abcdefghijklmnopqrstuvwxyz''"
  shows "toLowerCase u = kw \<longleftrightarrow> list_all2 sameLetter u kw"
  using assms
proof (induction kw arbitrary: u)
  case Nil
  then show ?case by (simp add: toLowerCase_def)
next
  case (Cons k ks)
  then have k: "k \<in> set ''abcdefghijklmnopqrstuvwxyz''"
    and ks: "set ks \<subseteq> set ''abcdefghijklmnopqrstuvwxyz''" by simp_all
  show ?case
  proof (cases u)
    case Nil
    then show ?thesis by (simp add: toLowerCase_def)
  next
    case (Cons c cs)
    have "toLowerCase cs = ks \<longleftrightarrow> list_all2 sameLetter cs ks"
      using Cons.IH [OF ks] .
    then show ?thesis
      unfolding Cons using lower_char_iff [OF k, of c] by (simp add: toLowerCase_def)
  qed
qed

lemma contains_keyword_iff:
  assumes "set kw \<subseteq> set ''abcdefghijklmnopqrstuvwxyz''"
  shows "sublist kw (toLowerCase jobRole) \<longleftrightarrow>
         (\<exists>pre u post. jobRole = pre @ u @ post \<and> list_all2 sameLetter u kw)"
proof
  assume "sublist kw (toLowerCase jobRole)"
  then obtain ps ss where "map toLowerCaseChar jobRole = ps @ kw @ ss"
    by (auto simp: sublist_def toLowerCase_def)
  then obtain pre rest where j1: "jobRole = pre @ rest" and "map toLowerCaseChar rest = kw @ ss"
    by (metis map_eq_append_conv)
  then obtain u post where j2: "rest = u @ post" and u: "map toLowerCaseChar u = kw"
    by (metis map_eq_append_conv)
  have "list_all2 sameLetter u kw"
    using lower_string_iff [OF assms, of u] u by (simp add: toLowerCase_def)
  then show "\<exists>pre u post. jobRole = pre @ u @ post \<and> list_all2 sameLetter u kw"
    using j1 j2 by blast
next
  assume "\<exists>pre u post. jobRole = pre @ u @ post \<and> list_all2 sameLetter u kw"
  then obtain pre u post where j: "jobRole = pre @ u @ post" and u: "list_all2 sameLetter u kw"
    by blast
  have "toLowerCase u = kw" using lower_string_iff [OF assms, of u] u by simp
  then have "toLowerCase jobRole = toLowerCase pre @ kw @ toLowerCase post"
    unfolding j by (simp add: toLowerCase_def)
  then show "sublist kw (toLowerCase jobRole)"
    by (auto simp: sublist_def)
qed

lemma sameLetter_strings_lower:
  "list_all2 sameLetter a b \<Longrightarrow> toLowerCase a = toLowerCase b"
  unfolding toLowerCase_def
  by (induction rule: list_all2_induct) (simp_all add: sameLetter_lower)

lemma getRoleCategory_examples:
  "getRoleCategory ''Senior Content Writer'' = Content"
  "getRoleCategory ''MARKETING lead'' = Content"
  "getRoleCategory ''Backend Engineer'' = Tech"
  "getRoleCategory [] = Tech"
  by (simp_all add: getRoleCategory_def contentKeywords_def lower_eval)

text \<open>
  C2. \<open>getRoleCategory\<close> is a function of the job-role string alone. It gives \<open>content\<close>
  exactly when the string has a substring that equals, up to the case of the letters A
  to Z, one of the keywords \<open>writer\<close>, \<open>content\<close>, \<open>editor\<close>, \<open>copywriter\<close>, \<open>author\<close>,
  \<open>writing\<close>, \<open>marketing\<close>, \<open>copywriting\<close>, and \<open>tech\<close> for every other string, the empty
  one included. Two strings that differ only in the case of their letters get the same
  category.
\<close>

theorem getRoleCategory_keyword:
  "getRoleCategory jobRole =
     (if \<exists>kw \<in> set [''writer'', ''content'', ''editor'', ''copywriter'', ''author'',
                       ''writing'', ''marketing'', ''copywriting''].
           \<exists>pre u post. jobRole = pre @ u @ post \<and> list_all2 sameLetter u kw
      then Content else Tech) \<and>
   (list_all2 sameLetter jobRole otherRole \<longrightarrow>
      getRoleCategory otherRole = getRoleCategory jobRole) \<and>
   getRoleCategory [] = Tech"
proof -
  let ?kws = "[''writer'', ''content'', ''editor'', ''copywriter'', ''author'',
               ''writing'', ''marketing'', ''copywriting'']"
  have letters: "set kw \<subseteq> set ''abcdefghijklmnopqrstuvwxyz''" if "kw \<in> set ?kws" for kw
    using that by auto
  have "list_ex (\<lambda>kw. str_includes (toLowerCase jobRole) kw) contentKeywords \<longleftrightarrow>
      (\<exists>kw \<in> set ?kws. sublist kw (toLowerCase jobRole))"
    by (simp add: list_ex_iff contentKeywords_def str_includes_sublist)
  also have "\<dots> \<longleftrightarrow>
      (\<exists>kw \<in> set ?kws. \<exists>pre u post. jobRole = pre @ u @ post \<and> list_all2 sameLetter u kw)"
    using contains_keyword_iff [OF letters] by (intro bex_cong refl) blast
  finally have rule: "getRoleCategory jobRole =
     (if \<exists>kw \<in> set ?kws. \<exists>pre u post. jobRole = pre @ u @ post \<and> list_all2 sameLetter u kw
      then Content else Tech)"
    by (simp add: getRoleCategory_def)
  have same: "list_all2 sameLetter jobRole otherRole \<longrightarrow>
      getRoleCategory otherRole = getRoleCategory jobRole"
    using sameLetter_strings_lower [of jobRole otherRole] by (auto simp: getRoleCategory_def)
  have empty: "getRoleCategory [] = Tech"
    by (simp add: getRoleCategory_def contentKeywords_def toLowerCase_def)
  show ?thesis using rule same empty by blast
qed

theorem getRoleCategory_keyword_witness:
  "getRoleCategory ''Senior MARKETING Lead'' = Content \<and>
   getRoleCategory ''Technical Writer'' = Content \<and>
   getRoleCategory ''senior CONTENT writer'' = getRoleCategory ''Senior Content Writer'' \<and>
   getRoleCategory ''Backend Engineer'' = Tech"
proof -
  have m: "''Senior MARKETING Lead'' = ''Senior '' @ ''MARKETING'' @ '' Lead''" by simp
  have w: "''Technical Writer'' = ''Technical '' @ ''Writer'' @ []" by simp
  have sm: "list_all2 sameLetter ''MARKETING'' ''marketing''"
    by (simp add: sameLetter_def asciiLetters_def)
  have sw: "list_all2 sameLetter ''Writer'' ''writer''"
    by (simp add: sameLetter_def asciiLetters_def)
  have sc: "list_all2 sameLetter ''Senior Content Writer'' ''senior CONTENT writer''"
    by (simp add: sameLetter_def asciiLetters_def)
  have e1: "\<exists>kw \<in> set [''writer'', ''content'', ''editor'', ''copywriter'', ''author'',
                       ''writing'', ''marketing'', ''copywriting''].
           \<exists>pre u post. ''Senior MARKETING Lead'' = pre @ u @ post \<and> list_all2 sameLetter u kw"
  proof (rule bexI [of _ "''marketing''"])
    show "\<exists>pre u post. ''Senior MARKETING Lead'' = pre @ u @ post \<and>
        list_all2 sameLetter u ''marketing''"
      by (intro exI [of _ "''Senior ''"] exI [of _ "''MARKETING''"] exI [of _ "'' Lead''"]
          conjI m sm)
  qed simp
  have e2: "\<exists>kw \<in> set [''writer'', ''content'', ''editor'', ''copywriter'', ''author'',
                       ''writing'', ''marketing'', ''copywriting''].
           \<exists>pre u post. ''Technical Writer'' = pre @ u @ post \<and> list_all2 sameLetter u kw"
  proof (rule bexI [of _ "''writer''"])
    show "\<exists>pre u post. ''Technical Writer'' = pre @ u @ post \<and>
        list_all2 sameLetter u ''writer''"
      by (intro exI [of _ "''Technical ''"] exI [of _ "''Writer''"] exI [of _ "[]"]
          conjI w sw)
  qed simp
  have c1: "getRoleCategory ''Senior MARKETING Lead'' = Content"
    by (subst conjunct1 [OF getRoleCategory_keyword]) (simp only: e1 if_True)
  have c2: "getRoleCategory ''Technical Writer'' = Content"
    by (subst conjunct1 [OF getRoleCategory_keyword]) (simp only: e2 if_True)
  have c3: "getRoleCategory ''senior CONTENT writer'' = getRoleCategory ''Senior Content Writer''"
    by (rule mp [OF conjunct1 [OF conjunct2 [OF getRoleCategory_keyword]] sc])
  have c4: "getRoleCategory ''Backend Engineer'' = Tech"
    by (rule getRoleCategory_examples)
  show ?thesis using c1 c2 c3 c4 by (intro conjI)
qed

section \<open>The error classifier: totality and the policy table\<close>

lemma handleApiError_classify:
  "handleApiError error =
     JsError (if classify error = Unexpected
              then ''Unexpected error: '' @ errorText error
              else categorySentence (classify error))"
proof (cases error)
  case NonError
  then show ?thesis by (simp add: handleApiError_def classify_def)
next
  case (JsError message)
  then show ?thesis
    by (simp add: handleApiError_def classify_def includes_key keys_lower Let_def)
qed

lemma handleApiError_is_error: "\<exists>sentence. handleApiError error = JsError sentence \<and> sentence \<noteq> []"
  unfolding handleApiError_classify by (cases "classify error") simp_all

lemma containsIgnoringCase_nonempty: "containsIgnoringCase txt key \<Longrightarrow> key \<noteq> [] \<Longrightarrow> txt \<noteq> []"
  by (auto simp: containsIgnoringCase_def toLowerCase_def)

text \<open>
  C4, as the code has it. \<open>handleApiError\<close> is total and always returns an \<open>Error\<close> with a
  non-empty message. The message is the fixed sentence of the category the policy table
  gives the error, except in the catch-all category, where it is \<open>Unexpected error: \<close>
  followed by the original message. With the first matching rule winning: a message
  that contains \<open>429\<close> or \<open>quota\<close> (and not \<open>api key not valid\<close>) gives the quota
  sentence; a message that contains \<open>safety\<close> in any case (and no key of an earlier
  rule) gives the safety sentence; a value with no message gives the generic sentence.
\<close>

theorem handleApiError_policy:
  "(\<exists>sentence. handleApiError error = JsError sentence \<and> sentence \<noteq> []) \<and>
   handleApiError error =
     JsError (if classify error = Unexpected
              then ''Unexpected error: '' @ errorText error
              else categorySentence (classify error)) \<and>
   ((containsIgnoringCase quotaMessage ''429'' \<or> containsIgnoringCase quotaMessage ''quota'')
      \<and> \<not> containsIgnoringCase quotaMessage ''api key not valid''
    \<longrightarrow> handleApiError (JsError quotaMessage) =
          JsError ''API quota exceeded. Please try again later or check your billing status.'') \<and>
   (containsIgnoringCase safetyMessage ''safety''
      \<and> \<not> containsIgnoringCase safetyMessage ''api key not valid''
      \<and> \<not> containsIgnoringCase safetyMessage ''quota''
      \<and> \<not> containsIgnoringCase safetyMessage ''429''
      \<and> \<not> containsIgnoringCase safetyMessage ''400''
      \<and> \<not> containsIgnoringCase safetyMessage ''500''
      \<and> \<not> containsIgnoringCase safetyMessage ''503''
    \<longrightarrow> handleApiError (JsError safetyMessage) =
          JsError ''Request blocked by safety filters. Please modify your input.'') \<and>
   handleApiError NonError =
     JsError ''The AI is currently unavailable. Please try again in a moment.'' \<and>
   handleApiError (JsError []) =
     JsError ''The AI is currently unavailable. Please try again in a moment.''"
proof -
  have quota: "handleApiError (JsError quotaMessage) =
      JsError ''API quota exceeded. Please try again later or check your billing status.''"
    if "containsIgnoringCase quotaMessage ''429'' \<or> containsIgnoringCase quotaMessage ''quota''"
      and "\<not> containsIgnoringCase quotaMessage ''api key not valid''"
  proof -
    from that(1) have "quotaMessage \<noteq> []"
      using containsIgnoringCase_nonempty by fastforce
    with that show ?thesis
      by (auto simp: handleApiError_classify classify_def)
  qed
  have safety: "handleApiError (JsError safetyMessage) =
      JsError ''Request blocked by safety filters. Please modify your input.''"
    if "containsIgnoringCase safetyMessage ''safety''"
      and "\<not> containsIgnoringCase safetyMessage ''api key not valid''"
      and "\<not> containsIgnoringCase safetyMessage ''quota''"
      and "\<not> containsIgnoringCase safetyMessage ''429''"
      and "\<not> containsIgnoringCase safetyMessage ''400''"
      and "\<not> containsIgnoringCase safetyMessage ''500''"
      and "\<not> containsIgnoringCase safetyMessage ''503''"
  proof -
    from that(1) have "safetyMessage \<noteq> []"
      using containsIgnoringCase_nonempty by fastforce
    with that show ?thesis
      by (simp add: handleApiError_classify classify_def)
  qed
  have none: "handleApiError NonError =
      JsError ''The AI is currently unavailable. Please try again in a moment.''"
    "handleApiError (JsError []) =
      JsError ''The AI is currently unavailable. Please try again in a moment.''"
    by (simp_all add: handleApiError_def)
  show ?thesis
    using handleApiError_is_error [of error] handleApiError_classify [of error]
      quota safety none
    by blast
qed

theorem handleApiError_policy_witness:
  "handleApiError (JsError ''got status: 429 Too Many Requests'') =
     JsError ''API quota exceeded. Please try again later or check your billing status.'' \<and>
   handleApiError (JsError ''Candidate was blocked due to SAFETY'') =
     JsError ''Request blocked by safety filters. Please modify your input.''"
  using handleApiError_policy
    [of NonError "''got status: 429 Too Many Requests''" "''Candidate was blocked due to SAFETY''"]
  by (simp add: containsIgnoringCase_code lower_eval)

text \<open>
  The claim's one fixed sentence per category fails in the catch-all category: two
  errors of that category get two different messages.
\<close>

theorem handleApiError_unexpected_not_fixed:
  "classify (JsError ''disk full'') = Unexpected \<and>
   classify (JsError ''socket closed'') = Unexpected \<and>
   handleApiError (JsError ''disk full'') = JsError ''Unexpected error: disk full'' \<and>
   handleApiError (JsError ''socket closed'') = JsError ''Unexpected error: socket closed'' \<and>
   handleApiError (JsError ''disk full'') \<noteq> handleApiError (JsError ''socket closed'')"
  by (simp add: classify_def handleApiError_def containsIgnoringCase_code lower_eval)

section \<open>The checks on the response\<close>

lemma trim_whitespace: "list_all isWhiteSpace raw \<Longrightarrow> trim raw = []"
  by (auto simp: trim_def list_all_iff dest: set_dropWhileD)

text \<open>
  C5, as the code has it. A response text that is not the empty string and that, once
  trimmed, begins with neither \<open>{\<close> nor \<open>[\<close> fails with the malformed-format error, and
  the world is left as it was: \<open>JSON.parse\<close> has not been called.
\<close>

theorem malformed_response_not_parsed:
  assumes "raw \<noteq> []" "\<not> startsWith (trim raw) ''{''" "\<not> startsWith (trim raw) ''[''"
  shows "parseAndValidate e (Some raw) w = (Inl (JsError ''Invalid JSON response format''), w)"
  using assms by (simp add: parseAndValidate_def)

theorem malformed_response_not_parsed_witness:
  "parseAndValidate envNoKey (Some '' Sure! Here is the JSON: {}'') world0 =
     (Inl (JsError ''Invalid JSON response format''), world0)"
  using malformed_response_not_parsed [of "'' Sure! Here is the JSON: {}''" envNoKey world0]
  by (simp add: trim_def isWhiteSpace_def)

text \<open>
  The empty string begins with neither \<open>{\<close> nor \<open>[\<close> after trimming, and it fails with
  the empty-response error, not the malformed-format one.
\<close>

theorem empty_response_not_malformed:
  "\<not> startsWith (trim []) ''{'' \<and> \<not> startsWith (trim []) ''['' \<and>
   parseAndValidate envNoKey (Some []) world0 =
     (Inl (JsError ''Empty response from AI service''), world0) \<and>
   parseAndValidate envNoKey (Some []) world0 \<noteq>
     (Inl (JsError ''Invalid JSON response format''), world0)"
  by (simp add: parseAndValidate_def trim_def)

text \<open>
  C6, as the code has it. An absent response text and the empty string fail with the
  empty-response error. A non-empty string of white space only passes that test and
  fails with the malformed-format error.
\<close>

theorem empty_response_error:
  "parseAndValidate e None w = (Inl (JsError ''Empty response from AI service''), w) \<and>
   parseAndValidate e (Some []) w = (Inl (JsError ''Empty response from AI service''), w) \<and>
   (raw \<noteq> [] \<and> list_all isWhiteSpace raw \<longrightarrow>
      parseAndValidate e (Some raw) w = (Inl (JsError ''Invalid JSON response format''), w))"
  by (simp add: parseAndValidate_def trim_whitespace)

theorem empty_response_error_witness:
  "parseAndValidate envNoKey None world0 =
     (Inl (JsError ''Empty response from AI service''), world0) \<and>
   parseAndValidate envNoKey (Some []) world0 =
     (Inl (JsError ''Empty response from AI service''), world0) \<and>
   parseAndValidate envNoKey (Some [CHR 0x09, CHR 0x0A]) world0 =
     (Inl (JsError ''Invalid JSON response format''), world0)"
  using empty_response_error [of envNoKey world0 "[CHR 0x09, CHR 0x0A]"]
  by (simp add: isWhiteSpace_def)

theorem whitespace_response_malformed:
  "list_all isWhiteSpace ''  '' \<and>
   parseAndValidate envNoKey (Some ''  '') world0 =
     (Inl (JsError ''Invalid JSON response format''), world0) \<and>
   parseAndValidate envNoKey (Some ''  '') world0 \<noteq>
     (Inl (JsError ''Empty response from AI service''), world0)"
  by (simp add: parseAndValidate_def trim_def isWhiteSpace_def)

section \<open>Facts about binary64 rounding\<close>

lemma pow2_powr: "pow2 k = 2 powr of_int k"
proof (cases "0 \<le> k")
  case True
  then show ?thesis
    by (simp add: pow2_def powr_realpow [symmetric])
next
  case False
  then have "(2::real) powr of_int k = 1 / 2 powr of_int (- k)"
    by (simp add: powr_minus_divide)
  also have "\<dots> = 1 / 2 ^ nat (- k)"
    using False by (simp add: powr_realpow [symmetric])
  finally show ?thesis using False by (simp add: pow2_def)
qed

lemma pow2_pos: "0 < pow2 k"
  by (simp add: pow2_powr)

lemma pow2_add: "pow2 (j + k) = pow2 j * pow2 k"
  by (simp add: pow2_powr powr_add)

lemma pow2_mono: "j \<le> k \<Longrightarrow> pow2 j \<le> pow2 k"
  by (simp add: pow2_powr)

lemma pow2_nat: "pow2 (int n) = 2 ^ n"
  by (simp add: pow2_def)

lemma roundHalfEven_int: "roundHalfEven (of_int m) = m"
  by (simp add: roundHalfEven_def)

lemma roundHalfEven_bounds: "\<lfloor>y\<rfloor> \<le> roundHalfEven y \<and> roundHalfEven y \<le> \<lfloor>y\<rfloor> + 1"
  by (simp add: roundHalfEven_def Let_def)

lemma roundHalfEven_mono:
  assumes "y1 \<le> y2"
  shows "roundHalfEven y1 \<le> roundHalfEven y2"
proof (cases "\<lfloor>y1\<rfloor> = \<lfloor>y2\<rfloor>")
  case True
  then show ?thesis using assms by (auto simp: roundHalfEven_def Let_def)
next
  case False
  with assms have "\<lfloor>y1\<rfloor> + 1 \<le> \<lfloor>y2\<rfloor>"
    using floor_mono [of y1 y2] by linarith
  then show ?thesis
    using roundHalfEven_bounds [of y1] roundHalfEven_bounds [of y2] by linarith
qed

lemma binade:
  assumes "0 < x"
  shows "pow2 \<lfloor>log 2 x\<rfloor> \<le> x \<and> x < pow2 (\<lfloor>log 2 x\<rfloor> + 1)"
  using floor_log_eq_powr_iff [of x 2 "\<lfloor>log 2 x\<rfloor>"] assms by (simp add: pow2_powr)

lemma binade_unique:
  assumes "pow2 k \<le> x" "x < pow2 (k + 1)"
  shows "\<lfloor>log 2 x\<rfloor> = k"
proof -
  have "0 < x" using assms(1) pow2_pos [of k] by linarith
  then show ?thesis
    using floor_log_eq_powr_iff [of x 2 k] assms by (simp add: pow2_powr)
qed

lemma binary64_pos_eq:
  "0 < x \<Longrightarrow> binary64 x = pow2 (ulpExponent x) * of_int (roundHalfEven (x / pow2 (ulpExponent x)))"
  by (simp add: binary64_def Let_def)

lemma binary64_upper:
  assumes "0 < x"
  shows "binary64 x \<le> pow2 (ulpExponent x + 53)"
proof -
  let ?E = "ulpExponent x" let ?u = "pow2 ?E"
  have "x < pow2 (\<lfloor>log 2 x\<rfloor> + 1)" using binade [OF assms] by simp
  also have "\<dots> \<le> pow2 (?E + 53)"
    using assms by (intro pow2_mono) (simp add: ulpExponent_def)
  also have "\<dots> = ?u * pow2 53" by (rule pow2_add)
  finally have "x / ?u < pow2 53"
    using pow2_pos [of ?E] by (simp add: pos_divide_less_eq mult.commute)
  also have "pow2 53 = of_int (2 ^ 53)"
    using pow2_nat [of 53] by simp
  finally have "roundHalfEven (x / ?u) \<le> roundHalfEven (of_int (2 ^ 53))"
    by (intro roundHalfEven_mono) simp
  then have "roundHalfEven (x / ?u) \<le> 2 ^ 53"
    unfolding roundHalfEven_int .
  then have "(of_int (roundHalfEven (x / ?u)) :: real) \<le> of_int (2 ^ 53)"
    by (simp only: of_int_le_iff)
  also have "(of_int (2 ^ 53) :: real) = pow2 53"
    using pow2_nat [of 53] by simp
  finally have "?u * of_int (roundHalfEven (x / ?u)) \<le> ?u * pow2 53"
    using pow2_pos [of ?E] by (simp only: mult_le_cancel_left_pos)
  then show ?thesis
    using assms by (simp add: binary64_pos_eq pow2_add)
qed

lemma binary64_lower:
  assumes "0 < x" and normal: "- 1022 \<le> \<lfloor>log 2 x\<rfloor>"
  shows "pow2 (ulpExponent x + 52) \<le> binary64 x"
proof -
  let ?E = "ulpExponent x" let ?u = "pow2 ?E"
  have E: "?E + 52 = \<lfloor>log 2 x\<rfloor>"
    using assms by (simp add: ulpExponent_def)
  have "?u * pow2 52 = pow2 (?E + 52)" by (rule pow2_add [symmetric])
  also have "\<dots> \<le> x" unfolding E using binade [OF assms(1)] by simp
  finally have "pow2 52 \<le> x / ?u"
    using pow2_pos [of ?E] by (simp add: pos_le_divide_eq mult.commute)
  moreover have "pow2 52 = of_int (2 ^ 52)"
    using pow2_nat [of 52] by simp
  ultimately have "roundHalfEven (of_int (2 ^ 52)) \<le> roundHalfEven (x / ?u)"
    by (intro roundHalfEven_mono) simp
  then have "2 ^ 52 \<le> roundHalfEven (x / ?u)"
    unfolding roundHalfEven_int .
  then have "(of_int (2 ^ 52) :: real) \<le> of_int (roundHalfEven (x / ?u))"
    by (simp only: of_int_le_iff)
  moreover have "(of_int (2 ^ 52) :: real) = pow2 52"
    using pow2_nat [of 52] by simp
  ultimately have "?u * pow2 52 \<le> ?u * of_int (roundHalfEven (x / ?u))"
    using pow2_pos [of ?E] by (simp only: mult_le_cancel_left_pos)
  then show ?thesis
    using assms by (simp add: binary64_pos_eq pow2_add)
qed

lemma binary64_nonneg: "0 \<le> x \<Longrightarrow> 0 \<le> binary64 x"
proof (cases "x = 0")
  case True
  then show ?thesis by (simp add: binary64_def)
next
  case False
  assume "0 \<le> x"
  with False have x: "0 < x" by simp
  have "0 \<le> x / pow2 (ulpExponent x)"
    using x pow2_pos [of "ulpExponent x"] by simp
  then have "0 \<le> roundHalfEven (x / pow2 (ulpExponent x))"
    using roundHalfEven_mono [of 0 "x / pow2 (ulpExponent x)"] roundHalfEven_int [of 0] by simp
  then show ?thesis
    using x pow2_pos [of "ulpExponent x"] by (simp add: binary64_pos_eq)
qed

lemma ulpExponent_mono:
  assumes "0 < x" "x \<le> y"
  shows "ulpExponent x \<le> ulpExponent y"
proof -
  have "log 2 x \<le> log 2 y" using assms by simp
  then have "\<lfloor>log 2 x\<rfloor> \<le> \<lfloor>log 2 y\<rfloor>" by (rule floor_mono)
  then show ?thesis using assms by (simp add: ulpExponent_def)
qed

lemma binary64_mono:
  assumes "0 \<le> x" "x \<le> y"
  shows "binary64 x \<le> binary64 y"
proof (cases "x = 0")
  case True
  then show ?thesis using assms binary64_nonneg [of y] by (simp add: binary64_def)
next
  case False
  with assms have x: "0 < x" and y: "0 < y" by simp_all
  have le: "ulpExponent x \<le> ulpExponent y" using ulpExponent_mono [OF x assms(2)] .
  show ?thesis
  proof (cases "ulpExponent x = ulpExponent y")
    case True
    have "x / pow2 (ulpExponent y) \<le> y / pow2 (ulpExponent y)"
      using assms(2) pow2_pos [of "ulpExponent y"] by (simp add: divide_right_mono)
    then have "roundHalfEven (x / pow2 (ulpExponent y)) \<le> roundHalfEven (y / pow2 (ulpExponent y))"
      by (rule roundHalfEven_mono)
    then show ?thesis
      using x y True pow2_pos [of "ulpExponent y"] by (simp add: binary64_pos_eq)
  next
    case False
    with le have lt: "ulpExponent x + 1 \<le> ulpExponent y" by simp
    have ax: "\<bar>x\<bar> = x" "\<bar>y\<bar> = y" using x y by simp_all
    from lt have "max \<lfloor>log 2 x\<rfloor> (- 1022) + 1 \<le> max \<lfloor>log 2 y\<rfloor> (- 1022)"
      unfolding ulpExponent_def ax by linarith
    then have normal: "- 1022 \<le> \<lfloor>log 2 y\<rfloor>" by linarith
    have "binary64 x \<le> pow2 (ulpExponent x + 53)" by (rule binary64_upper [OF x])
    also have "\<dots> \<le> pow2 (ulpExponent y + 52)" using lt by (intro pow2_mono) simp
    also have "\<dots> \<le> binary64 y" by (rule binary64_lower [OF y normal])
    finally show ?thesis .
  qed
qed

lemma binary64_int:
  assumes "0 \<le> n" "n < 2 ^ 53"
  shows "binary64 (of_int n) = of_int n"
proof (cases "n = 0")
  case True
  then show ?thesis by (simp add: binary64_def)
next
  case False
  with assms have n: "1 \<le> n" by simp
  let ?x = "of_int n :: real"
  have x: "0 < ?x" using n by simp
  let ?e = "\<lfloor>log 2 ?x\<rfloor>"
  have e0: "0 \<le> ?e"
  proof -
    have "log 2 1 \<le> log 2 ?x" using n by (intro log_mono) simp_all
    then show ?thesis by simp
  qed
  have e52: "?e \<le> 52"
  proof (rule ccontr)
    assume "\<not> ?e \<le> 52"
    then have "pow2 53 \<le> pow2 ?e" by (intro pow2_mono) simp
    also have "\<dots> \<le> ?x" using binade [OF x] by simp
    finally have "(2 ^ 53 :: real) \<le> of_int n" using pow2_nat [of 53] by simp
    then have "(of_int (2 ^ 53) :: real) \<le> of_int n" by simp
    then have "(2 ^ 53 :: int) \<le> n" by (simp only: of_int_le_iff)
    with assms show False by simp
  qed
  have ax: "\<bar>?x\<bar> = ?x" using x by simp
  have E: "ulpExponent ?x = ?e - 52"
    unfolding ulpExponent_def ax using e0 by linarith
  let ?k = "nat (52 - ?e)"
  have u: "pow2 (?e - 52) = 1 / 2 ^ ?k"
  proof (cases "?e = 52")
    case True
    then show ?thesis by (simp add: pow2_def)
  next
    case False
    with e52 have neg: "\<not> 0 \<le> ?e - 52" by linarith
    have "nat (- (?e - 52)) = ?k" by simp
    then show ?thesis unfolding pow2_def using neg by (simp only: if_False)
  qed
  have q: "?x / pow2 (?e - 52) = of_int (n * 2 ^ ?k)"
    by (simp add: u)
  show ?thesis
    using x unfolding binary64_pos_eq [OF x] E
    by (simp only: q roundHalfEven_int) (simp add: u)
qed

lemma binary64_eval:
  assumes "pow2 k \<le> x" "x < pow2 (k + 1)" "- 1022 \<le> k"
  shows "binary64 x = pow2 (k - 52) * of_int (roundHalfEven (x / pow2 (k - 52)))"
proof -
  have x: "0 < x" using assms(1) pow2_pos [of k] by linarith
  have "\<lfloor>log 2 x\<rfloor> = k" using binade_unique [OF assms(1,2)] .
  then have "ulpExponent x = k - 52"
    using x assms(3) by (simp add: ulpExponent_def)
  then show ?thesis using x by (simp add: binary64_pos_eq)
qed

lemma binary64_nat: "n < 2 ^ 53 \<Longrightarrow> binary64 (real n) = real n"
  using binary64_int [of "int n"] by (simp add: nat_less_numeral_power_cancel_iff)

lemma jitter_max: "binary64 ((1 - 1 / 2 ^ 53) * 1000) = 1000 - 1 / 2 ^ 43"
  by (subst binary64_eval [of 9]) (simp_all add: pow2_def roundHalfEven_def)

lemma delay_max: "binary64 (1000 + (1000 - 1 / 2 ^ 43)) = 2000"
  by (subst binary64_eval [of 10]) (simp_all add: pow2_def roundHalfEven_def)

lemma half_double: "binary64 (1 / 2) = 1 / 2"
  by (subst binary64_eval [of "- 1"]) (simp_all add: pow2_def roundHalfEven_def)

lemma max_double: "binary64 (1 - 1 / 2 ^ 53) = 1 - 1 / 2 ^ 53"
  by (subst binary64_eval [of "- 1"]) (simp_all add: pow2_def roundHalfEven_def)


lemma unit_double_le:
  assumes d: "binary64 r = r" and r0: "0 \<le> r" and r1: "r < 1"
  shows "r \<le> 1 - 1 / 2 ^ 53"
proof (cases "r < 1 / 2")
  case True
  have "(1 / 2 :: real) \<le> 1 - 1 / 2 ^ 53" by simp
  with True show ?thesis by linarith
next
  case False
  then have lo: "pow2 (- 1) \<le> r" by (simp add: pow2_def)
  have hi: "r < pow2 (- 1 + 1)" using r1 by (simp add: pow2_def)
  define m where "m = roundHalfEven (r / pow2 (- 1 - 52))"
  have "binary64 r = pow2 (- 1 - 52) * of_int m"
    unfolding m_def by (rule binary64_eval [OF lo hi]) simp
  then have r: "r = of_int m / 2 ^ 53"
    using d by (simp add: pow2_def)
  with r1 have "(of_int m :: real) < 2 ^ 53" by simp
  then have "(of_int m :: real) < of_int (2 ^ 53)" by simp
  then have "m < 2 ^ 53" by (simp only: of_int_less_iff)
  then have "m \<le> 2 ^ 53 - 1" by simp
  then have "(of_int m :: real) \<le> of_int (2 ^ 53 - 1)" by (simp only: of_int_le_iff)
  then have "(of_int m :: real) \<le> 2 ^ 53 - 1" by simp
  then have "of_int m / 2 ^ 53 \<le> ((2 ^ 53 - 1) / 2 ^ 53 :: real)"
    by (simp add: divide_right_mono)
  then show ?thesis unfolding r by (simp add: diff_divide_distrib)
qed

lemma jitter_bounds:
  assumes d: "binary64 r = r" and r0: "0 \<le> r" and r1: "r < 1"
  shows "0 \<le> times64 r 1000 \<and> times64 r 1000 \<le> 1000 - 1 / 2 ^ 43 \<and> times64 r 1000 < 1000"
proof -
  have le: "r * 1000 \<le> (1 - 1 / 2 ^ 53) * 1000"
    using unit_double_le [OF d r0 r1] by simp
  have nn: "0 \<le> r * 1000" using r0 by simp
  have "binary64 (r * 1000) \<le> binary64 ((1 - 1 / 2 ^ 53) * 1000)"
    by (rule binary64_mono [OF nn le])
  then have up: "times64 r 1000 \<le> 1000 - 1 / 2 ^ 43"
    by (simp only: times64_def jitter_max)
  have "(1000 - 1 / 2 ^ 43 :: real) < 1000" by simp
  with up have "times64 r 1000 < 1000" by linarith
  then show ?thesis
    using up binary64_nonneg [OF nn] by (simp add: times64_def)
qed

lemma times64_attempt:
  assumes "1000 * k < 2 ^ 53"
  shows "times64 1000 (real k) = 1000 * real k"
proof -
  have "binary64 (real (1000 * k)) = real (1000 * k)"
    using assms by (rule binary64_nat)
  then show ?thesis by (simp add: times64_def)
qed

lemma delayAfter_bounds:
  assumes d: "binary64 r = r" and r0: "0 \<le> r" and r1: "r < 1"
      and small: "1000 * k + 1000 < 2 ^ 53"
  shows "1000 * real k \<le> delayAfter k r \<and> delayAfter k r \<le> 1000 * real k + 1000"
proof -
  let ?j = "times64 r 1000"
  have j: "0 \<le> ?j" "?j \<le> 1000" using jitter_bounds [OF d r0 r1] by simp_all
  have k: "1000 * k < 2 ^ 53" using small by simp
  have lo: "binary64 (real (1000 * k)) = real (1000 * k)"
    using k by (rule binary64_nat)
  have hi: "binary64 (real (1000 * k + 1000)) = real (1000 * k + 1000)"
    using small by (rule binary64_nat)
  have "binary64 (real (1000 * k)) \<le> binary64 (1000 * real k + ?j)"
    using j by (intro binary64_mono) simp_all
  moreover have "binary64 (1000 * real k + ?j) \<le> binary64 (real (1000 * k + 1000))"
    using j by (intro binary64_mono) simp_all
  ultimately show ?thesis
    unfolding delayAfter_def plus64_def times64_attempt [OF k] lo hi by simp
qed

lemma delayAfter_half: "delayAfter 1 (1 / 2) = 1500" "delayAfter (Suc 0) (1 / 2) = 1500"
proof -
  have a: "binary64 (real 1000) = real 1000" by (rule binary64_nat) simp
  have b: "binary64 (real 500) = real 500" by (rule binary64_nat) simp
  have c: "binary64 (real 1500) = real 1500" by (rule binary64_nat) simp
  show "delayAfter 1 (1 / 2) = 1500"
    using a b c by (simp add: delayAfter_def plus64_def times64_def)
  then show "delayAfter (Suc 0) (1 / 2) = 1500" by simp
qed

lemma delayAfter_max: "delayAfter 1 (1 - 1 / 2 ^ 53) = 2000"
proof -
  have a: "binary64 (real 1000) = real 1000" by (rule binary64_nat) simp
  have "delayAfter 1 (1 - 1 / 2 ^ 53) =
      binary64 (binary64 (real 1000) + binary64 ((1 - 1 / 2 ^ 53) * 1000))"
    by (simp add: delayAfter_def plus64_def times64_def)
  also have "\<dots> = binary64 (1000 + (1000 - 1 / 2 ^ 43))"
    unfolding a jitter_max by simp
  also have "\<dots> = 2000" by (rule delay_max)
  finally show ?thesis .
qed

section \<open>The retry loop\<close>

declare generateAndParse_loop.simps [simp del]

lemma loop_step:
  "attempt \<le> maxRetries \<Longrightarrow>
   generateAndParse_loop e maxRetries attempt lastError w =
     (case attemptBody e w of
        (Inr parsed, w1) \<Rightarrow> (Inr parsed, w1)
      | (Inl err, w1) \<Rightarrow>
          if attempt = maxRetries
          then (Inl (handleApiError err), w1\<lparr>events := events w1 @ [Warn attempt err]\<rparr>)
          else generateAndParse_loop e maxRetries (attempt + 1) err
                 (w1\<lparr>draws := draws w1 + 1,
                     events := events w1 @
                       [Warn attempt err,
                        Timeout (delayAfter attempt (Math_random e (draws w1)))]\<rparr>))"
  by (subst generateAndParse_loop.simps)
     (simp add: Let_def delayAfter_def split: prod.splits sum.splits)

lemma loop_done:
  "maxRetries < attempt \<Longrightarrow>
   generateAndParse_loop e maxRetries attempt lastError w = (Inl (handleApiError lastError), w)"
  by (subst generateAndParse_loop.simps) simp

lemma generateAndParse_2:
  "generateAndParse e 2 w =
     (case attemptBody e w of
        (Inr parsed, w1) \<Rightarrow> (Inr parsed, w1)
      | (Inl err1, w1) \<Rightarrow>
          (case attemptBody e
                  (w1\<lparr>draws := draws w1 + 1,
                      events := events w1 @
                        [Warn 1 err1, Timeout (delayAfter 1 (Math_random e (draws w1)))]\<rparr>) of
             (Inr parsed, w2) \<Rightarrow> (Inr parsed, w2)
           | (Inl err2, w2) \<Rightarrow>
               (Inl (handleApiError err2), w2\<lparr>events := events w2 @ [Warn 2 err2]\<rparr>)))"
  unfolding generateAndParse_def
  by (simp add: loop_step split: prod.splits sum.splits)

lemma delays_append: "delays (xs @ ys) = delays xs @ delays ys"
  by (induction xs rule: delays.induct) simp_all

lemma warned_append: "warned (xs @ ys) = warned xs @ warned ys"
  by (induction xs rule: warned.induct) simp_all

lemma parse_draws: "draws (snd (parseAndValidate e t w)) = draws w"
  by (simp add: parseAndValidate_def Let_def split: option.splits)

lemma parse_delays: "delays (events (snd (parseAndValidate e t w))) = delays (events w)"
  by (simp add: parseAndValidate_def Let_def delays_append split: option.splits)

lemma parse_warned: "warned (events (snd (parseAndValidate e t w))) = warned (events w)"
  by (simp add: parseAndValidate_def Let_def warned_append split: option.splits)

lemma attempt_draws: "draws (snd (attemptBody e w)) = draws w"
  by (simp add: attemptBody_def getAiClient_def Let_def parse_draws split: response.splits)

lemma attempt_delays: "delays (events (snd (attemptBody e w))) = delays (events w)"
  by (simp add: attemptBody_def getAiClient_def Let_def parse_delays delays_append
      split: response.splits)

lemma attempt_warned: "warned (events (snd (attemptBody e w))) = warned (events w)"
  by (simp add: attemptBody_def getAiClient_def Let_def parse_warned warned_append
      split: response.splits)

lemma loop_failing_delays:
  assumes fails: "\<forall>w. isl (fst (attemptBody e w))"
  shows "a \<le> n \<Longrightarrow>
    delays (events (snd (generateAndParse_loop e n a l w))) =
      delays (events w) @
      map (\<lambda>k. delayAfter k (Math_random e (draws w + (k - a)))) [a..<n]"
proof (induction "n - a" arbitrary: a l w)
  case 0
  then have an: "a = n" by simp
  obtain err w1 where ab: "attemptBody e w = (Inl err, w1)"
    using fails by (metis isl_def prod.collapse)
  have "delays (events w1) = delays (events w)"
    using attempt_delays [of e w] ab by simp
  then show ?case
    using an ab by (simp add: loop_step delays_append)
next
  case (Suc m)
  then have lt: "a < n" and m: "m = n - (a + 1)" and le: "a + 1 \<le> n" by simp_all
  obtain err w1 where ab: "attemptBody e w = (Inl err, w1)"
    using fails by (metis isl_def prod.collapse)
  have d1: "delays (events w1) = delays (events w)"
    using attempt_delays [of e w] ab by simp
  have r1: "draws w1 = draws w"
    using attempt_draws [of e w] ab by simp
  let ?w' = "w1\<lparr>draws := draws w1 + 1,
                 events := events w1 @
                   [Warn a err, Timeout (delayAfter a (Math_random e (draws w1)))]\<rparr>"
  have step: "generateAndParse_loop e n a l w = generateAndParse_loop e n (a + 1) err ?w'"
    using lt ab by (simp add: loop_step)
  have ih: "delays (events (snd (generateAndParse_loop e n (a + 1) err ?w'))) =
      delays (events ?w') @
      map (\<lambda>k. delayAfter k (Math_random e (draws ?w' + (k - (a + 1))))) [a + 1..<n]"
    using Suc.hyps(1) [OF m le] .
  have mp: "map (\<lambda>k. delayAfter k (Math_random e (draws ?w' + (k - (a + 1))))) [a + 1..<n]
      = map (\<lambda>k. delayAfter k (Math_random e (draws w + (k - a)))) [a + 1..<n]"
  proof (rule map_cong)
    fix k assume "k \<in> set [a + 1..<n]"
    then have "a + 1 \<le> k" by simp
    then have "draws ?w' + (k - (a + 1)) = draws w + (k - a)"
      using r1 by simp
    then show "delayAfter k (Math_random e (draws ?w' + (k - (a + 1)))) =
        delayAfter k (Math_random e (draws w + (k - a)))"
      by (simp only:)
  qed simp
  have up: "[a..<n] = a # [a + 1..<n]"
    using lt by (simp add: upt_conv_Cons)
  show ?case
    unfolding step ih mp up by (simp add: delays_append d1 r1)
qed

lemma backoff_bounds:
  assumes rnd: "\<forall>k. 0 \<le> Math_random e k \<and> Math_random e k < 1 \<and>
                    binary64 (Math_random e k) = Math_random e k"
      and small: "1000 * k + 1000 < 2 ^ 53"
  shows "1000 * real k \<le> backoff e w k \<and> backoff e w k \<le> 1000 * real k + 1000"
  unfolding backoff_def using rnd small by (intro delayAfter_bounds) simp_all

lemma backoff_sorted:
  assumes rnd: "\<forall>k. 0 \<le> Math_random e k \<and> Math_random e k < 1 \<and>
                    binary64 (Math_random e k) = Math_random e k"
      and small: "1000 * n < 2 ^ 53"
  shows "sorted (map (backoff e w) [1..<n])"
proof -
  have mono: "backoff e w i \<le> backoff e w j" if "i \<le> j" "j < n" for i j
  proof (cases "i = j")
    case True
    then show ?thesis by simp
  next
    case False
    with that have ij: "i + 1 \<le> j" by simp
    then have r: "real i + 1 \<le> real j" by linarith
    have si: "1000 * i + 1000 < 2 ^ 53" using ij that(2) small by linarith
    have sj: "1000 * j + 1000 < 2 ^ 53" using that(2) small by linarith
    have "backoff e w i \<le> 1000 * real i + 1000"
      using backoff_bounds [OF rnd si] by simp
    also have "\<dots> \<le> 1000 * real j" using r by linarith
    also have "\<dots> \<le> backoff e w j"
      using backoff_bounds [OF rnd sj] by simp
    finally show ?thesis .
  qed
  have "sorted_wrt (\<lambda>i j. backoff e w i \<le> backoff e w j) [1..<n]"
    by (rule sorted_wrt_mono_rel [of _ "(<)"]) (auto intro: mono)
  then show ?thesis by (simp only: sorted_map)
qed

lemma generateAndParse_failing_delays:
  assumes fails: "\<forall>w. isl (fst (attemptBody e w))" and n: "1 \<le> n"
  shows "delays (events (snd (generateAndParse e n w))) =
           delays (events w) @ map (backoff e w) [1..<n]"
  unfolding generateAndParse_def loop_failing_delays [OF fails n] backoff_def by simp

text \<open>
  C3, as the code has it. When every attempt fails, \<open>generateAndParse\<close> with two attempts
  runs the attempt body exactly twice (two \<open>console.warn\<close> calls, for attempts 1 and 2),
  waits once between them, and throws \<open>handleApiError\<close> of the second failure. With
  \<open>Math.random()\<close> a number in \<open>[0, 1)\<close>, the jitter \<open>Math.random() * 1000\<close> lies in
  \<open>[0, 1000)\<close> and the wait after attempt \<open>k\<close> is the binary64 sum of \<open>1000 * k\<close> and the
  jitter, which lies in \<open>[1000 * k, 1000 * k + 1000]\<close>, the upper end included. For any
  number of attempts the waits of a call are these, in order, and they never decrease.
\<close>

theorem retry_always_failing:
  assumes fails: "\<forall>w. isl (fst (attemptBody e w))"
      and rnd: "\<forall>k. 0 \<le> Math_random e k \<and> Math_random e k < 1 \<and>
                    binary64 (Math_random e k) = Math_random e k"
      and small: "1000 * n < 2 ^ 53"
  shows "(\<exists>err1 w1 err2 w2.
            attemptBody e w = (Inl err1, w1) \<and>
            attemptBody e
              (w1\<lparr>draws := draws w1 + 1,
                  events := events w1 @ [Warn 1 err1, Timeout (backoff e w 1)]\<rparr>)
              = (Inl err2, w2) \<and>
            generateAndParse e 2 w =
              (Inl (handleApiError err2), w2\<lparr>events := events w2 @ [Warn 2 err2]\<rparr>) \<and>
            warned (events (snd (generateAndParse e 2 w))) =
              warned (events w) @ [(1, err1), (2, err2)] \<and>
            delays (events (snd (generateAndParse e 2 w))) =
              delays (events w) @ [backoff e w 1]) \<and>
         backoff e w 1 = plus64 1000 (times64 (Math_random e (draws w)) 1000) \<and>
         (\<forall>j. 0 \<le> times64 (Math_random e j) 1000 \<and> times64 (Math_random e j) 1000 < 1000) \<and>
         1000 \<le> backoff e w 1 \<and> backoff e w 1 \<le> 2000 \<and>
         (\<forall>k. 1 \<le> k \<and> k < n \<longrightarrow>
            backoff e w k =
              plus64 (1000 * real k) (times64 (Math_random e (draws w + (k - 1))) 1000) \<and>
            1000 * real k \<le> backoff e w k \<and> backoff e w k \<le> 1000 * real k + 1000) \<and>
         (1 \<le> n \<longrightarrow>
            delays (events (snd (generateAndParse e n w))) =
              delays (events w) @ map (backoff e w) [1..<n]) \<and>
         sorted (map (backoff e w) [1..<n])"
proof -
  obtain err1 w1 where a1: "attemptBody e w = (Inl err1, w1)"
    using fails by (metis isl_def prod.collapse)
  have r1: "draws w1 = draws w" using attempt_draws [of e w] a1 by simp
  have b1: "backoff e w 1 = delayAfter 1 (Math_random e (draws w1))"
    by (simp add: backoff_def r1)
  let ?w1' = "w1\<lparr>draws := draws w1 + 1,
                  events := events w1 @ [Warn 1 err1, Timeout (backoff e w 1)]\<rparr>"
  obtain err2 w2 where a2: "attemptBody e ?w1' = (Inl err2, w2)"
    using fails by (metis isl_def prod.collapse)
  have g: "generateAndParse e 2 w =
      (Inl (handleApiError err2), w2\<lparr>events := events w2 @ [Warn 2 err2]\<rparr>)"
    unfolding generateAndParse_2 a1 using a2 [unfolded b1] by simp
  have wn1: "warned (events w1) = warned (events w)"
    using attempt_warned [of e w] a1 by simp
  have wn2: "warned (events w2) = warned (events ?w1')"
    using attempt_warned [of e ?w1'] a2 by simp
  have wn: "warned (events (snd (generateAndParse e 2 w))) =
      warned (events w) @ [(1, err1), (2, err2)]"
    unfolding g by (simp add: warned_append wn2 wn1)
  have dl1: "delays (events w1) = delays (events w)"
    using attempt_delays [of e w] a1 by simp
  have dl2: "delays (events w2) = delays (events ?w1')"
    using attempt_delays [of e ?w1'] a2 by simp
  have dl: "delays (events (snd (generateAndParse e 2 w))) =
      delays (events w) @ [backoff e w 1]"
    unfolding g by (simp add: delays_append dl2 dl1)
  have t1: "times64 1000 (real 1) = 1000"
    using times64_attempt [of 1] by simp
  have shape: "backoff e w 1 = plus64 1000 (times64 (Math_random e (draws w)) 1000)"
    using t1 by (simp add: backoff_def delayAfter_def)
  have jit: "\<forall>j. 0 \<le> times64 (Math_random e j) 1000 \<and> times64 (Math_random e j) 1000 < 1000"
    using jitter_bounds rnd by simp
  have first: "1000 \<le> backoff e w 1" "backoff e w 1 \<le> 2000"
    using backoff_bounds [OF rnd, of 1 w] by simp_all
  have each: "\<forall>k. 1 \<le> k \<and> k < n \<longrightarrow>
      backoff e w k =
        plus64 (1000 * real k) (times64 (Math_random e (draws w + (k - 1))) 1000) \<and>
      1000 * real k \<le> backoff e w k \<and> backoff e w k \<le> 1000 * real k + 1000"
  proof (intro allI impI)
    fix k assume "1 \<le> k \<and> k < n"
    then have sk: "1000 * k + 1000 < 2 ^ 53" using small by linarith
    then have "1000 * k < 2 ^ 53" by linarith
    then have "times64 1000 (real k) = 1000 * real k" by (rule times64_attempt)
    then have "backoff e w k =
        plus64 (1000 * real k) (times64 (Math_random e (draws w + (k - 1))) 1000)"
      by (simp add: backoff_def delayAfter_def)
    then show "backoff e w k =
        plus64 (1000 * real k) (times64 (Math_random e (draws w + (k - 1))) 1000) \<and>
      1000 * real k \<le> backoff e w k \<and> backoff e w k \<le> 1000 * real k + 1000"
      using backoff_bounds [OF rnd sk] by blast
  qed
  show ?thesis
    using a1 a2 g wn dl shape jit first each generateAndParse_failing_delays [OF fails]
      backoff_sorted [OF rnd small]
    by blast
qed

lemma envDown_fails: "\<forall>w. isl (fst (attemptBody envDown w))"
  by (simp add: attemptBody_def getAiClient_def envDown_def Let_def)

lemma unavailable_classified:
  "handleApiError (JsError ''503 Service Unavailable'') =
     JsError ''AI service temporarily unavailable. Please try again later.''"
  by (simp add: handleApiError_def lower_eval)

lemma unavailable_classified2:
  "handleApiError (JsError ''AI service temporarily unavailable. Please try again later.'') =
     JsError ''Unexpected error: AI service temporarily unavailable. Please try again later.''"
  by (simp add: handleApiError_def lower_eval)

theorem retry_always_failing_witness:
  "generateAndParse envDown 2 world0 =
     (Inl (JsError ''AI service temporarily unavailable. Please try again later.''),
      \<lparr>ai = True, requests = 2, draws = 1,
       events = [NetworkCall, Warn 1 (JsError ''503 Service Unavailable''), Timeout 1500,
                 NetworkCall, Warn 2 (JsError ''503 Service Unavailable'')]\<rparr>) \<and>
   warned (events (snd (generateAndParse envDown 2 world0))) =
     [(1, JsError ''503 Service Unavailable''), (2, JsError ''503 Service Unavailable'')] \<and>
   delays (events (snd (generateAndParse envDown 2 world0))) = [1500] \<and>
   times64 (Math_random envDown 0) 1000 = 500"
proof -
  have rnd: "\<forall>k. 0 \<le> Math_random envDown k \<and> Math_random envDown k < 1 \<and>
                 binary64 (Math_random envDown k) = Math_random envDown k"
    by (simp add: envDown_def half_double)
  have small: "1000 * (2::nat) < 2 ^ 53" by simp
  have a1: "attemptBody envDown world0 =
      (Inl (JsError ''503 Service Unavailable''),
       \<lparr>ai = True, requests = 1, draws = 0, events = [NetworkCall]\<rparr>)"
    by (simp add: attemptBody_def getAiClient_def envDown_def world0_def)
  have b: "backoff envDown world0 1 = 1500"
    by (simp add: backoff_def envDown_def delayAfter_half)
  have a2: "attemptBody envDown
      \<lparr>ai = True, requests = 1, draws = 1,
       events = [NetworkCall, Warn 1 (JsError ''503 Service Unavailable''), Timeout 1500]\<rparr> =
      (Inl (JsError ''503 Service Unavailable''),
       \<lparr>ai = True, requests = 2, draws = 1,
        events = [NetworkCall, Warn 1 (JsError ''503 Service Unavailable''), Timeout 1500,
                  NetworkCall]\<rparr>)"
    by (simp add: attemptBody_def getAiClient_def envDown_def)
  have j: "times64 (Math_random envDown 0) 1000 = 500"
    using binary64_nat [of 500] by (simp add: times64_def envDown_def)
  from retry_always_failing [OF envDown_fails rnd small, of world0] a1 b a2 j
  show ?thesis
    by (clarsimp simp: unavailable_classified)
qed

text \<open>
  The wait is not always \<open>1000 * k\<close> plus a jitter below 1000: when \<open>Math.random()\<close>
  gives the largest number below 1, the jitter is below 1000 and the rounded sum is
  exactly 2000.
\<close>

theorem retry_wait_reaches_2000:
  "0 \<le> Math_random envMaxJitter 0 \<and> Math_random envMaxJitter 0 < 1 \<and>
   binary64 (Math_random envMaxJitter 0) = Math_random envMaxJitter 0 \<and>
   times64 (Math_random envMaxJitter 0) 1000 = 1000 - 1 / 2 ^ 43 \<and>
   delays (events (snd (generateAndParse envMaxJitter 2 world0))) = [2000] \<and>
   \<not> (2000 :: real) < 1000 * 1 + 1000"
proof -
  have r: "0 \<le> Math_random envMaxJitter 0 \<and> Math_random envMaxJitter 0 < 1 \<and>
      binary64 (Math_random envMaxJitter 0) = Math_random envMaxJitter 0"
    using max_double by (simp add: envMaxJitter_def)
  have j: "times64 (Math_random envMaxJitter 0) 1000 = 1000 - 1 / 2 ^ 43"
    using jitter_max by (simp add: times64_def envMaxJitter_def)
  have m: "Math_random envMaxJitter n = 1 - 1 / 2 ^ 53" for n
    by (simp add: envMaxJitter_def)
  have a: "attemptBody envMaxJitter w =
      (Inl (JsError ''503 Service Unavailable''),
       w\<lparr>ai := True, requests := requests w + 1, events := events w @ [NetworkCall]\<rparr>)" for w
    by (simp add: attemptBody_def getAiClient_def envMaxJitter_def)
  have d: "delays (events (snd (generateAndParse envMaxJitter 2 world0))) = [2000]"
    unfolding generateAndParse_2 a
    using delayAfter_max by (simp add: m world0_def)
  show ?thesis using r j d by simp
qed

section \<open>A missing credential\<close>

lemma attempt_no_key:
  assumes "API_KEY e = None \<or> API_KEY e = Some []" and "\<not> ai w"
  shows "attemptBody e w = (Inl (JsError ''API_KEY is not configured. Please ensure GEMINI_API_KEY is set in your .env file.''), w)"
  using assms by (auto simp: attemptBody_def getAiClient_def)

lemma cfg_classified:
  "handleApiError (JsError ''API_KEY is not configured. Please ensure GEMINI_API_KEY is set in your .env file.'')
   = JsError ''Unexpected error: API_KEY is not configured. Please ensure GEMINI_API_KEY is set in your .env file.''"
  by (simp add: handleApiError_def lower_eval)

lemma cfg_classified2:
  "handleApiError (JsError ''Unexpected error: API_KEY is not configured. Please ensure GEMINI_API_KEY is set in your .env file.'')
   = JsError ''Unexpected error: Unexpected error: API_KEY is not configured. Please ensure GEMINI_API_KEY is set in your .env file.''"
  by (simp add: handleApiError_def lower_eval)

lemma generateAndParse_no_key:
  assumes "API_KEY e = None \<or> API_KEY e = Some []" and "\<not> ai w"
  shows "generateAndParse e 2 w =
    (Inl (JsError ''Unexpected error: API_KEY is not configured. Please ensure GEMINI_API_KEY is set in your .env file.''),
     w\<lparr>draws := draws w + 1,
       events := events w @
         [Warn 1 (JsError ''API_KEY is not configured. Please ensure GEMINI_API_KEY is set in your .env file.''),
          Timeout (delayAfter 1 (Math_random e (draws w))),
          Warn 2 (JsError ''API_KEY is not configured. Please ensure GEMINI_API_KEY is set in your .env file.'')]\<rparr>)"
proof -
  let ?cfg = "JsError ''API_KEY is not configured. Please ensure GEMINI_API_KEY is set in your .env file.''"
  let ?w1 = "w\<lparr>draws := draws w + 1,
       events := events w @ [Warn 1 ?cfg, Timeout (delayAfter 1 (Math_random e (draws w)))]\<rparr>"
  have a1: "attemptBody e w = (Inl ?cfg, w)" using assms by (rule attempt_no_key)
  have a2: "attemptBody e ?w1 = (Inl ?cfg, ?w1)" using assms by (intro attempt_no_key) simp_all
  show ?thesis
    unfolding generateAndParse_2 a1 by (simp only: prod.case sum.case a2 cfg_classified) simp
qed

lemma role_not_blank: "trim ''Backend Engineer'' \<noteq> []"
  by (simp add: trim_def isWhiteSpace_def)

text \<open>
  C9, as the code has it. With no key configured and no client built yet, no request is
  sent: each attempt of \<open>generateAndParse\<close> fails in \<open>getAiClient\<close>. The failure is
  caught inside the retry loop, so the call warns, waits the backoff delay, fails a
  second time and only then throws, and what it throws is the classifier's catch-all
  message about the missing \<open>API_KEY\<close>. The two orchestrators, called with a job role
  that is not blank, classify that error once more and change nothing else.
  \<open>createChat\<close>, which has no retry loop, throws the configuration error at once and
  as it is.
\<close>

theorem missing_key_retried_then_unexpected:
  assumes key: "API_KEY e = None \<or> API_KEY e = Some []" and fresh: "\<not> ai w"
  shows "generateAndParse e 2 w =
    (Inl (JsError ''Unexpected error: API_KEY is not configured. Please ensure GEMINI_API_KEY is set in your .env file.''),
     w\<lparr>draws := draws w + 1,
       events := events w @
         [Warn 1 (JsError ''API_KEY is not configured. Please ensure GEMINI_API_KEY is set in your .env file.''),
          Timeout (delayAfter 1 (Math_random e (draws w))),
          Warn 2 (JsError ''API_KEY is not configured. Please ensure GEMINI_API_KEY is set in your .env file.'')]\<rparr>) \<and>
    requests (snd (generateAndParse e 2 w)) = requests w \<and>
    (trim jobRole \<noteq> [] \<longrightarrow>
       fst (generateFullInterviewPrep e jobRole w) =
         Inl (JsError ''Unexpected error: Unexpected error: API_KEY is not configured. Please ensure GEMINI_API_KEY is set in your .env file.'') \<and>
       snd (generateFullInterviewPrep e jobRole w) = snd (generateAndParse e 2 w) \<and>
       fst (generateRandomizedPrepSet e jobRole w) =
         Inl (JsError ''Unexpected error: Unexpected error: API_KEY is not configured. Please ensure GEMINI_API_KEY is set in your .env file.'') \<and>
       snd (generateRandomizedPrepSet e jobRole w) = snd (generateAndParse e 2 w)) \<and>
    createChat e w =
      (Inl (JsError ''API_KEY is not configured. Please ensure GEMINI_API_KEY is set in your .env file.''), w)"
proof -
  note g = generateAndParse_no_key [OF key fresh]
  have c: "createChat e w =
      (Inl (JsError ''API_KEY is not configured. Please ensure GEMINI_API_KEY is set in your .env file.''), w)"
    using key fresh by (auto simp: createChat_def getAiClient_def)
  have o1: "fst (generateFullInterviewPrep e jobRole w) =
         Inl (JsError ''Unexpected error: Unexpected error: API_KEY is not configured. Please ensure GEMINI_API_KEY is set in your .env file.'') \<and>
       snd (generateFullInterviewPrep e jobRole w) = snd (generateAndParse e 2 w)"
    if "trim jobRole \<noteq> []"
    using that unfolding generateFullInterviewPrep_def g
    by (simp only: if_False prod.case sum.case cfg_classified2 fst_conv snd_conv simp_thms)
  have o2: "fst (generateRandomizedPrepSet e jobRole w) =
         Inl (JsError ''Unexpected error: Unexpected error: API_KEY is not configured. Please ensure GEMINI_API_KEY is set in your .env file.'') \<and>
       snd (generateRandomizedPrepSet e jobRole w) = snd (generateAndParse e 2 w)"
    if "trim jobRole \<noteq> []"
    using that unfolding generateRandomizedPrepSet_def g
    by (simp only: if_False prod.case sum.case cfg_classified2 fst_conv snd_conv simp_thms)
  have r: "requests (snd (generateAndParse e 2 w)) = requests w"
    unfolding g by simp
  show ?thesis using g r o1 o2 c by blast
qed

theorem missing_key_retried_then_unexpected_witness:
  "generateAndParse envNoKey 2 world0 =
    (Inl (JsError ''Unexpected error: API_KEY is not configured. Please ensure GEMINI_API_KEY is set in your .env file.''),
     \<lparr>ai = False, requests = 0, draws = 1,
      events =
         [Warn 1 (JsError ''API_KEY is not configured. Please ensure GEMINI_API_KEY is set in your .env file.''),
          Timeout 1500,
          Warn 2 (JsError ''API_KEY is not configured. Please ensure GEMINI_API_KEY is set in your .env file.'')]\<rparr>) \<and>
   fst (generateFullInterviewPrep envNoKey ''Backend Engineer'' world0) =
     Inl (JsError ''Unexpected error: Unexpected error: API_KEY is not configured. Please ensure GEMINI_API_KEY is set in your .env file.'') \<and>
   fst (generateRandomizedPrepSet envNoKey ''Backend Engineer'' world0) =
     Inl (JsError ''Unexpected error: Unexpected error: API_KEY is not configured. Please ensure GEMINI_API_KEY is set in your .env file.'')"
proof -
  have key: "API_KEY envNoKey = None \<or> API_KEY envNoKey = Some []"
    by (simp add: envNoKey_def)
  have fresh: "\<not> ai world0" by (simp add: world0_def)
  have rnd: "Math_random envNoKey n = 1 / 2" for n by (simp add: envNoKey_def)
  from missing_key_retried_then_unexpected [OF key fresh, of "''Backend Engineer''"]
    role_not_blank
  show ?thesis by (simp add: world0_def rnd delayAfter_half)
qed

text \<open>
  The configuration failure is not raised at once: the loop records two failed attempts
  with a wait of 1500 ms between them, and the message is not the invalid-credential
  sentence.
\<close>

theorem missing_key_enters_retry_loop:
  "API_KEY envNoKey = None \<and> \<not> ai world0 \<and>
   warned (events (snd (generateAndParse envNoKey 2 world0))) =
     [(1, JsError ''API_KEY is not configured. Please ensure GEMINI_API_KEY is set in your .env file.''),
      (2, JsError ''API_KEY is not configured. Please ensure GEMINI_API_KEY is set in your .env file.'')] \<and>
   delays (events (snd (generateAndParse envNoKey 2 world0))) = [1500] \<and>
   fst (generateAndParse envNoKey 2 world0) =
     Inl (JsError ''Unexpected error: API_KEY is not configured. Please ensure GEMINI_API_KEY is set in your .env file.'') \<and>
   fst (generateAndParse envNoKey 2 world0) \<noteq>
     Inl (JsError ''Invalid API key. Please check your Google AI API key configuration.'')"
proof -
  have key: "API_KEY envNoKey = None \<or> API_KEY envNoKey = Some []"
    by (simp add: envNoKey_def)
  have fresh: "\<not> ai world0" by (simp add: world0_def)
  show ?thesis
    unfolding generateAndParse_no_key [OF key fresh]
    by (simp add: envNoKey_def world0_def delayAfter_half)
qed

section \<open>The orchestrators: failure of a sub-call\<close>

text \<open>
  C1. For a job role that is not blank: when a sub-call of \<open>generateFullInterviewPrep\<close>
  or of \<open>generateRandomizedPrepSet\<close> fails (its \<open>generateAndParse\<close> has used its two
  attempts), whichever sub-call it is and whatever the earlier ones returned, the
  operation throws \<open>handleApiError\<close> of that failure and returns no aggregate; the later
  sub-calls are not made.
\<close>

theorem orchestrators_all_or_nothing:
  assumes role: "trim jobRole \<noteq> []"
  shows
   "(\<forall>err w1. generateAndParse e 2 w = (Inl err, w1) \<longrightarrow>
       generateFullInterviewPrep e jobRole w = (Inl (handleApiError err), w1)) \<and>
    (\<forall>q w1 err w2.
       generateAndParse e 2 w = (Inr q, w1) \<and>
       generateAndParse e 2 (setTimeout 2000 w1) = (Inl err, w2) \<longrightarrow>
       generateFullInterviewPrep e jobRole w = (Inl (handleApiError err), w2)) \<and>
    (\<forall>q w1 c w2 err w3.
       generateAndParse e 2 w = (Inr q, w1) \<and>
       generateAndParse e 2 (setTimeout 2000 w1) = (Inr c, w2) \<and>
       generateAndParse e 2 (setTimeout 2000 w2) = (Inl err, w3) \<longrightarrow>
       generateFullInterviewPrep e jobRole w = (Inl (handleApiError err), w3)) \<and>
    (\<forall>err w1. generateAndParse e 2 w = (Inl err, w1) \<longrightarrow>
       generateRandomizedPrepSet e jobRole w = (Inl (handleApiError err), w1)) \<and>
    (\<forall>q w1 err w2.
       generateAndParse e 2 w = (Inr q, w1) \<and>
       generateAndParse e 2 (setTimeout 1500 w1) = (Inl err, w2) \<longrightarrow>
       generateRandomizedPrepSet e jobRole w = (Inl (handleApiError err), w2)) \<and>
    (\<forall>q w1 d w2 err w3.
       generateAndParse e 2 w = (Inr q, w1) \<and>
       generateAndParse e 2 (setTimeout 1500 w1) = (Inr d, w2) \<and>
       generateAndParse e 2 (setTimeout 1500 w2) = (Inl err, w3) \<longrightarrow>
       generateRandomizedPrepSet e jobRole w = (Inl (handleApiError err), w3)) \<and>
    (\<forall>q w1 d w2 c w3 err w4.
       generateAndParse e 2 w = (Inr q, w1) \<and>
       generateAndParse e 2 (setTimeout 1500 w1) = (Inr d, w2) \<and>
       generateAndParse e 2 (setTimeout 1500 w2) = (Inr c, w3) \<and>
       generateAndParse e 2 (setTimeout 1500 w3) = (Inl err, w4) \<longrightarrow>
       generateRandomizedPrepSet e jobRole w = (Inl (handleApiError err), w4))"
  using role
  by (simp add: generateFullInterviewPrep_def generateRandomizedPrepSet_def)

lemma secondFails_first:
  "generateAndParse envSecondFails 2 world0 =
     (Inr (JObj [(''generalQuestions'', JArr [JStr ''Tell me about yourself'']),
                 (''technicalQuestions'', JArr [])]),
      \<lparr>ai = True, requests = 1, draws = 0, events = [NetworkCall, JsonParse ''{}'']\<rparr>)"
  by (simp add: generateAndParse_2 attemptBody_def getAiClient_def parseAndValidate_def
      envSecondFails_def world0_def trim_def isWhiteSpace_def)

lemma secondFails_second:
  "generateAndParse envSecondFails 2
     (setTimeout ms \<lparr>ai = True, requests = 1, draws = 0,
                     events = [NetworkCall, JsonParse ''{}'']\<rparr>) =
     (Inl (JsError ''AI service temporarily unavailable. Please try again later.''),
      \<lparr>ai = True, requests = 3, draws = 1,
       events = [NetworkCall, JsonParse ''{}'', Timeout ms,
                 NetworkCall, Warn 1 (JsError ''503 Service Unavailable''), Timeout 1500,
                 NetworkCall, Warn 2 (JsError ''503 Service Unavailable'')]\<rparr>)"
  by (simp add: generateAndParse_2 attemptBody_def getAiClient_def setTimeout_def
      envSecondFails_def unavailable_classified delayAfter_half)

theorem orchestrators_all_or_nothing_witness:
  "generateFullInterviewPrep envSecondFails ''Backend Engineer'' world0 =
     (Inl (JsError ''Unexpected error: AI service temporarily unavailable. Please try again later.''),
      \<lparr>ai = True, requests = 3, draws = 1,
       events = [NetworkCall, JsonParse ''{}'', Timeout 2000,
                 NetworkCall, Warn 1 (JsError ''503 Service Unavailable''), Timeout 1500,
                 NetworkCall, Warn 2 (JsError ''503 Service Unavailable'')]\<rparr>) \<and>
   generateRandomizedPrepSet envSecondFails ''Backend Engineer'' world0 =
     (Inl (JsError ''Unexpected error: AI service temporarily unavailable. Please try again later.''),
      \<lparr>ai = True, requests = 3, draws = 1,
       events = [NetworkCall, JsonParse ''{}'', Timeout 1500,
                 NetworkCall, Warn 1 (JsError ''503 Service Unavailable''), Timeout 1500,
                 NetworkCall, Warn 2 (JsError ''503 Service Unavailable'')]\<rparr>)"
  using orchestrators_all_or_nothing [OF role_not_blank, of envSecondFails world0]
    secondFails_first secondFails_second [of 2000] secondFails_second [of 1500]
  by (simp add: unavailable_classified2)

section \<open>The orchestrators: what the aggregate holds\<close>

text \<open>
  C7, as the code has it. The parsed values are not checked against their schemas. For
  a job role that is not blank, when every sub-call returns a parsed value and the
  questions value is not \<open>null\<close>, the operation succeeds whatever the shapes are: a
  missing or falsy \<open>generalQuestions\<close> or \<open>technicalQuestions\<close> becomes the empty
  array in the aggregate, and the other values are passed on as they are (objects and
  arrays are truthy, so their defaults are never used for them).
\<close>

theorem orchestrators_expose_unvalidated:
  assumes role: "trim jobRole \<noteq> []"
  shows
   "(\<forall>q w1 c w2 m w3 general technical.
       generateAndParse e 2 w = (Inr q, w1) \<and>
       generateAndParse e 2 (setTimeout 2000 w1) = (Inr c, w2) \<and>
       generateAndParse e 2 (setTimeout 2000 w2) = (Inr m, w3) \<and>
       getProperty q ''generalQuestions'' = Inr general \<and>
       getProperty q ''technicalQuestions'' = Inr technical \<longrightarrow>
       generateFullInterviewPrep e jobRole w =
         (Inr \<lparr>roleCategory = getRoleCategory jobRole,
               generalQuestions = (case general of None \<Rightarrow> JArr []
                                   | Some v \<Rightarrow> if truthy v then v else JArr []),
               technicalQuestions = (case technical of None \<Rightarrow> JArr []
                                     | Some v \<Rightarrow> if truthy v then v else JArr []),
               codingChallenges = (if truthy c then c else JArr []),
               machineCoding = (if truthy m then m else JObj [])\<rparr>, w3)) \<and>
    (\<forall>q w1 d w2 c w3 m w4 general technical.
       generateAndParse e 2 w = (Inr q, w1) \<and>
       generateAndParse e 2 (setTimeout 1500 w1) = (Inr d, w2) \<and>
       generateAndParse e 2 (setTimeout 1500 w2) = (Inr c, w3) \<and>
       generateAndParse e 2 (setTimeout 1500 w3) = (Inr m, w4) \<and>
       getProperty q ''generalQuestions'' = Inr general \<and>
       getProperty q ''technicalQuestions'' = Inr technical \<longrightarrow>
       generateRandomizedPrepSet e jobRole w =
         (Inr \<lparr>roleCategory = getRoleCategory jobRole,
               generalQuestions = (case general of None \<Rightarrow> JArr []
                                   | Some v \<Rightarrow> if truthy v then v else JArr []),
               technicalQuestions = (case technical of None \<Rightarrow> JArr []
                                     | Some v \<Rightarrow> if truthy v then v else JArr []),
               codingChallenges = (if truthy c then c else JArr []),
               machineCoding = (if truthy m then m else JObj []),
               systemDesignQuestions = (if truthy d then d else JArr [])\<rparr>, w4))"
  using role
  by (auto simp: generateFullInterviewPrep_def generateRandomizedPrepSet_def
      split: option.splits)

lemma emptyObjects_call:
  "ai w \<Longrightarrow>
   generateAndParse envEmptyObjects 2 w =
     (Inr (JObj []), w\<lparr>requests := requests w + 1,
                        events := events w @ [NetworkCall, JsonParse ''{}'']\<rparr>)"
  by (simp add: generateAndParse_2 attemptBody_def getAiClient_def parseAndValidate_def
      envEmptyObjects_def trim_def isWhiteSpace_def)

lemma emptyObjects_first:
  "generateAndParse envEmptyObjects 2 world0 =
     (Inr (JObj []), \<lparr>ai = True, requests = 1, draws = 0,
                      events = [NetworkCall, JsonParse ''{}'']\<rparr>)"
  by (simp add: generateAndParse_2 attemptBody_def getAiClient_def parseAndValidate_def
      envEmptyObjects_def world0_def trim_def isWhiteSpace_def)

theorem orchestrators_expose_unvalidated_witness:
  "generateFullInterviewPrep envEmptyObjects ''Backend Engineer'' world0 =
     (Inr \<lparr>roleCategory = Tech, generalQuestions = JArr [], technicalQuestions = JArr [],
           codingChallenges = JObj [], machineCoding = JObj []\<rparr>,
      \<lparr>ai = True, requests = 3, draws = 0,
       events = [NetworkCall, JsonParse ''{}'', Timeout 2000,
                 NetworkCall, JsonParse ''{}'', Timeout 2000,
                 NetworkCall, JsonParse ''{}'']\<rparr>) \<and>
   generateRandomizedPrepSet envEmptyObjects ''Backend Engineer'' world0 =
     (Inr \<lparr>roleCategory = Tech, generalQuestions = JArr [], technicalQuestions = JArr [],
           codingChallenges = JObj [], machineCoding = JObj [],
           systemDesignQuestions = JObj []\<rparr>,
      \<lparr>ai = True, requests = 4, draws = 0,
       events = [NetworkCall, JsonParse ''{}'', Timeout 1500,
                 NetworkCall, JsonParse ''{}'', Timeout 1500,
                 NetworkCall, JsonParse ''{}'', Timeout 1500,
                 NetworkCall, JsonParse ''{}'']\<rparr>)"
  using orchestrators_expose_unvalidated [OF role_not_blank, of envEmptyObjects world0]
    emptyObjects_first
  by (simp add: emptyObjects_call setTimeout_def getRoleCategory_examples)

text \<open>
  A questions object without its two required keys is not a failure: the aggregate
  holds empty arrays in their place.
\<close>

theorem missing_keys_become_defaults:
  "JSON_parse envEmptyObjects ''{}'' = Inr (JObj []) \<and>
   getProperty (JObj []) ''generalQuestions'' = Inr None \<and>
   getProperty (JObj []) ''technicalQuestions'' = Inr None \<and>
   fst (generateFullInterviewPrep envEmptyObjects ''Backend Engineer'' world0) =
     Inr \<lparr>roleCategory = Tech, generalQuestions = JArr [], technicalQuestions = JArr [],
          codingChallenges = JObj [], machineCoding = JObj []\<rparr>"
proof -
  have p: "JSON_parse envEmptyObjects ''{}'' = Inr (JObj [])"
    by (simp add: envEmptyObjects_def)
  have f: "fst (generateFullInterviewPrep envEmptyObjects ''Backend Engineer'' world0) =
     Inr \<lparr>roleCategory = Tech, generalQuestions = JArr [], technicalQuestions = JArr [],
          codingChallenges = JObj [], machineCoding = JObj []\<rparr>"
    using role_not_blank
    by (simp add: generateFullInterviewPrep_def emptyObjects_first emptyObjects_call
        setTimeout_def getRoleCategory_examples)
  show ?thesis using p f by simp
qed

section \<open>Chat: a chunk of the stream\<close>






section \<open>Chat: a stream that fails\<close>

















end
